theory Spec2Isabelle
  imports Complex_Main
begin

section \<open>Data model of the consensus builder\<close>

text \<open>
  Shallow embedding of \<^verbatim>\<open>src/consensus/consensus_builder.py\<close> and of the
  decision loop of \<^verbatim>\<open>src/executive_team_orchestrator.py\<close>.
  Python floats are modelled as \<^typ>\<open>real\<close>, Python strings as \<^typ>\<open>string\<close>,
  dictionaries as association lists in insertion order, exceptions as the left
  summand of a sum type.
\<close>

datatype error =
    ValidationError    \<comment> \<open>pydantic refuses a field value\<close>
  | ValueError         \<comment> \<open>raised by \<^verbatim>\<open>_determine_lead_executive\<close>\<close>
  | StopIteration      \<comment> \<open>\<^verbatim>\<open>next(iter(...))\<close> on an empty dictionary\<close>
  | IndexError         \<comment> \<open>\<^verbatim>\<open>[...][0]\<close> on an empty list\<close>

datatype ConsensusLevel =
    STRONG_CONSENSUS
  | GENERAL_CONSENSUS
  | MAJORITY_AGREEMENT
  | DIVIDED_OPINION
  | STRONG_DISAGREEMENT

fun ConsensusLevel_value :: "ConsensusLevel \<Rightarrow> string" where
  "ConsensusLevel_value STRONG_CONSENSUS = ''strong_consensus''"
| "ConsensusLevel_value GENERAL_CONSENSUS = ''general_consensus''"
| "ConsensusLevel_value MAJORITY_AGREEMENT = ''majority_agreement''"
| "ConsensusLevel_value DIVIDED_OPINION = ''divided_opinion''"
| "ConsensusLevel_value STRONG_DISAGREEMENT = ''strong_disagreement''"

datatype ConflictResolutionMethod =
    EVIDENCE_BASED
  | WEIGHTED_VOTING
  | DELPHI_METHOD
  | COMPROMISE
  | INTEGRATIVE
  | ESCALATION
  | STRUCTURED_DEBATE
  | DIALECTICAL_INQUIRY

fun ConflictResolutionMethod_value :: "ConflictResolutionMethod \<Rightarrow> string" where
  "ConflictResolutionMethod_value EVIDENCE_BASED = ''evidence_based''"
| "ConflictResolutionMethod_value WEIGHTED_VOTING = ''weighted_voting''"
| "ConflictResolutionMethod_value DELPHI_METHOD = ''delphi_method''"
| "ConflictResolutionMethod_value COMPROMISE = ''compromise''"
| "ConflictResolutionMethod_value INTEGRATIVE = ''integrative''"
| "ConflictResolutionMethod_value ESCALATION = ''escalation''"
| "ConflictResolutionMethod_value STRUCTURED_DEBATE = ''structured_debate''"
| "ConflictResolutionMethod_value DIALECTICAL_INQUIRY = ''dialectical_inquiry''"

text \<open>\<^verbatim>\<open>DecisionParticipation\<close> is a \<^verbatim>\<open>TypedDict\<close>: a plain dictionary at run time.\<close>

record DecisionParticipation =
  executive_id :: string
  executive_role :: string
  participation_type :: string
  contribution_weight :: real
  expertise_relevance :: real

record ConsensusEvaluation =
  recommendation_id :: string
  evaluator_id :: string
  evaluator_role :: string
  agreement_level :: real
  concerns :: "string list"
  suggestions :: "string list"
  supporting_arguments :: "string list"
  expertise_level :: real
  confidence :: real

text \<open>
  The pydantic constructor of \<^verbatim>\<open>ConsensusEvaluation\<close>: the three fields declared
  with \<^verbatim>\<open>Field(..., ge=0.0, le=1.0)\<close> are checked, anything else is stored.
\<close>

definition in_unit :: "real \<Rightarrow> bool" where
  "in_unit x = (0 \<le> x \<and> x \<le> 1)"

definition new_ConsensusEvaluation ::
  "string \<Rightarrow> string \<Rightarrow> string \<Rightarrow> real \<Rightarrow> string list \<Rightarrow> string list \<Rightarrow> string list
    \<Rightarrow> real \<Rightarrow> real \<Rightarrow> error + ConsensusEvaluation" where
  "new_ConsensusEvaluation rid eid role agreement cs sgs args expertise conf =
     (if in_unit agreement \<and> in_unit expertise \<and> in_unit conf
      then Inr \<lparr>recommendation_id = rid, evaluator_id = eid, evaluator_role = role,
                agreement_level = agreement, concerns = cs, suggestions = sgs,
                supporting_arguments = args, expertise_level = expertise,
                confidence = conf\<rparr>
      else Inl ValidationError)"


section \<open>Support metrics\<close>

record support_metrics =
  weighted_support :: real
  unweighted_support :: real
  participation_rate :: real
  strong_support :: nat
  moderate_support :: nat
  neutral :: nat
  moderate_opposition :: nat
  strong_opposition :: nat

text \<open>
  The loop over the evaluations: \<^verbatim>\<open>next(p for p in participating_executives if ...)\<close>
  is the first participation record with the evaluator's identifier; an evaluation
  with no record contributes nothing.  The pair is
  (\<^verbatim>\<open>weighted_agreements\<close>, \<^verbatim>\<open>total_weight\<close>).
\<close>

fun weigh :: "DecisionParticipation list \<Rightarrow> ConsensusEvaluation list \<Rightarrow> real list \<times> real
    \<Rightarrow> real list \<times> real" where
  "weigh ps [] acc = acc"
| "weigh ps (e # es) (weighted_agreements, total_weight) =
     (case find (\<lambda>p. executive_id p = evaluator_id e) ps of
        None \<Rightarrow> weigh ps es (weighted_agreements, total_weight)
      | Some participation_info \<Rightarrow>
          (let weight = expertise_relevance participation_info
                        * contribution_weight participation_info
           in weigh ps es (weighted_agreements @ [agreement_level e * weight],
                           total_weight + weight)))"

definition calculate_support_metrics ::
  "ConsensusEvaluation list \<Rightarrow> DecisionParticipation list \<Rightarrow> support_metrics" where
  "calculate_support_metrics evaluations participating_executives =
     (if evaluations = [] then
        \<lparr>weighted_support = 0, unweighted_support = 0, participation_rate = 0,
         strong_support = 0, moderate_support = 0, neutral = 0,
         moderate_opposition = 0, strong_opposition = 0\<rparr>
      else
        (let total_evaluations = length evaluations;
             unweighted = (if total_evaluations > 0
                           then sum_list (map agreement_level evaluations)
                                / real total_evaluations
                           else 0);
             (weighted_agreements, total_weight) =
                weigh participating_executives evaluations ([], 0);
             weighted = (if total_weight > 0
                         then sum_list weighted_agreements / total_weight
                         else unweighted);
             expected_participation = length participating_executives;
             rate = (if expected_participation > 0
                     then real total_evaluations / real expected_participation
                     else 1)
         in \<lparr>weighted_support = weighted,
             unweighted_support = unweighted,
             participation_rate = rate,
             strong_support = length (filter (\<lambda>e. agreement_level e \<ge> 0.8) evaluations),
             moderate_support =
               length (filter (\<lambda>e. 0.6 \<le> agreement_level e \<and> agreement_level e < 0.8)
                              evaluations),
             neutral =
               length (filter (\<lambda>e. 0.4 \<le> agreement_level e \<and> agreement_level e < 0.6)
                              evaluations),
             moderate_opposition =
               length (filter (\<lambda>e. 0.2 \<le> agreement_level e \<and> agreement_level e < 0.4)
                              evaluations),
             strong_opposition = length (filter (\<lambda>e. agreement_level e < 0.2) evaluations)\<rparr>))"

section \<open>Consensus level and support re-estimation\<close>

definition determine_consensus_level :: "real \<Rightarrow> ConsensusLevel" where
  "determine_consensus_level support_percentage =
     (if support_percentage \<ge> 0.9 then STRONG_CONSENSUS
      else if support_percentage \<ge> 0.75 then GENERAL_CONSENSUS
      else if support_percentage \<ge> 0.6 then MAJORITY_AGREEMENT
      else if support_percentage \<ge> 0.4 then DIVIDED_OPINION
      else STRONG_DISAGREEMENT)"

text \<open>Position of a level on the scale from disagreement (0) to strong consensus (4).\<close>

fun level_rank :: "ConsensusLevel \<Rightarrow> nat" where
  "level_rank STRONG_DISAGREEMENT = 0"
| "level_rank DIVIDED_OPINION = 1"
| "level_rank MAJORITY_AGREEMENT = 2"
| "level_rank GENERAL_CONSENSUS = 3"
| "level_rank STRONG_CONSENSUS = 4"

definition dict_get :: "('k \<times> 'v) list \<Rightarrow> 'k \<Rightarrow> 'v \<Rightarrow> 'v" where
  "dict_get d k dflt = (case map_of d k of Some v \<Rightarrow> v | None \<Rightarrow> dflt)"

text \<open>\<^verbatim>\<open>d[k] = v\<close>: an existing key keeps its position, a new key goes last.\<close>

fun dict_set :: "('k \<times> 'v) list \<Rightarrow> 'k \<Rightarrow> 'v \<Rightarrow> ('k \<times> 'v) list" where
  "dict_set [] k v = [(k, v)]"
| "dict_set ((k', v') # d) k v = (if k' = k then (k, v) # d else (k', v') # dict_set d k v)"

section \<open>Conflicts\<close>

text \<open>
  The three shapes of conflict dictionary built by \<^verbatim>\<open>_identify_conflicts\<close> and
  \<^verbatim>\<open>_identify_role_conflicts\<close>; \<open>c_type\<close> is the value under the key
  \<^verbatim>\<open>"type"\<close>.
\<close>

datatype conflict =
    SharedConcern (description: string) (affected_executives: "string list")
      (severity: string)
  | PolarizedOpinion (description: string) (supporting_executives_of: "string list")
      (opposing_executives_of: "string list") (severity: string)
  | RoleBased (description: string) (supporting_role: string) (opposing_role: string)
      (agreement_difference: real) (severity: string)

fun c_type :: "conflict \<Rightarrow> string" where
  "c_type (SharedConcern _ _ _) = ''shared_concern''"
| "c_type (PolarizedOpinion _ _ _ _) = ''polarized_opinion''"
| "c_type (RoleBased _ _ _ _ _) = ''role_based''"

record conflicts =
  all_conflicts :: "conflict list"
  critical_conflicts :: "conflict list"

text \<open>\<^verbatim>\<open>str.lower()\<close> on the ASCII letters; other bytes are left as they are.\<close>

definition lower_char :: "char \<Rightarrow> char" where
  "lower_char c =
     (let n = (of_char c :: nat) in if 65 \<le> n \<and> n \<le> 90 then char_of (n + 32) else c)"

definition lower :: "string \<Rightarrow> string" where
  "lower s = map lower_char s"

record concern_entry =
  ce_concern :: string
  ce_count :: nat
  ce_evaluators :: "string list"

definition add_concern ::
  "string \<Rightarrow> (string \<times> concern_entry) list \<Rightarrow> string \<Rightarrow> (string \<times> concern_entry) list" where
  "add_concern eid concern_count c =
     (let concern_key = lower c in
      case map_of concern_count concern_key of
        Some v \<Rightarrow> dict_set concern_count concern_key
                  (v\<lparr>ce_count := ce_count v + 1, ce_evaluators := ce_evaluators v @ [eid]\<rparr>)
      | None \<Rightarrow> dict_set concern_count concern_key
                  \<lparr>ce_concern = c, ce_count = 1, ce_evaluators = [eid]\<rparr>)"

definition count_concerns :: "ConsensusEvaluation list \<Rightarrow> (string \<times> concern_entry) list" where
  "count_concerns evaluations =
     foldl (\<lambda>concern_count e. foldl (add_concern (evaluator_id e)) concern_count (concerns e))
           [] evaluations"

definition shared_concern_conflict :: "nat \<Rightarrow> concern_entry \<Rightarrow> conflict" where
  "shared_concern_conflict n c =
     SharedConcern (ce_concern c) (ce_evaluators c)
       (if real (ce_count c) > real n / 3 then ''medium'' else ''low'')"

text \<open>Python compares strings code point by code point.\<close>

fun str_less :: "string \<Rightarrow> string \<Rightarrow> bool" where
  "str_less [] [] = False"
| "str_less [] (y # ys) = True"
| "str_less (x # xs) [] = False"
| "str_less (x # xs) (y # ys) =
     ((of_char x :: nat) < of_char y \<or> (x = y \<and> str_less xs ys))"

definition group_by_role ::
  "ConsensusEvaluation list \<Rightarrow> (string \<times> ConsensusEvaluation list) list" where
  "group_by_role evaluations =
     foldl (\<lambda>role_groups e.
              (let role = evaluator_role e in
               case map_of role_groups role of
                 None \<Rightarrow> dict_set role_groups role [e]
               | Some g \<Rightarrow> dict_set role_groups role (g @ [e])))
           [] evaluations"

definition avg_agreement :: "ConsensusEvaluation list \<Rightarrow> real" where
  "avg_agreement g = sum_list (map agreement_level g) / real (length g)"

definition role_pair_conflict ::
  "string \<times> ConsensusEvaluation list \<Rightarrow> string \<times> ConsensusEvaluation list \<Rightarrow> conflict list" where
  "role_pair_conflict g1 g2 =
     (let role1 = fst g1; role2 = fst g2;
          avg_agreement1 = avg_agreement (snd g1) in
      if \<not> str_less role1 role2 then []
      else
        (let avg_agreement2 = avg_agreement (snd g2) in
         if \<bar>avg_agreement1 - avg_agreement2\<bar> > 0.4 then
           (let supporting = (if avg_agreement1 > avg_agreement2 then role1 else role2);
                opposing = (if avg_agreement1 > avg_agreement2 then role2 else role1)
            in [RoleBased
                  (''Systematic disagreement between '' @ supporting @ '' and '' @ opposing
                     @ '' roles'')
                  supporting opposing \<bar>avg_agreement1 - avg_agreement2\<bar>
                  (if \<bar>avg_agreement1 - avg_agreement2\<bar> > 0.6 then ''high'' else ''medium'')])
         else []))"

definition identify_role_conflicts :: "ConsensusEvaluation list \<Rightarrow> conflict list" where
  "identify_role_conflicts evaluations =
     (let role_groups = group_by_role evaluations in
      if length role_groups > 1
      then concat (map (\<lambda>g1. concat (map (role_pair_conflict g1) role_groups)) role_groups)
      else [])"

definition identify_conflicts :: "ConsensusEvaluation list \<Rightarrow> conflicts" where
  "identify_conflicts evaluations =
     (if length evaluations < 2 then \<lparr>all_conflicts = [], critical_conflicts = []\<rparr>
      else
        (let n = length evaluations;
             frequent_concerns = filter (\<lambda>v. ce_count v > 1)
                                        (map snd (count_concerns evaluations));
             shared = map (shared_concern_conflict n) frequent_concerns;
             shared_critical =
               map (shared_concern_conflict n)
                   (filter (\<lambda>v. real (ce_count v) > real n / 2) frequent_concerns);
             supportive = filter (\<lambda>e. agreement_level e \<ge> 0.7) evaluations;
             opposing = filter (\<lambda>e. agreement_level e \<le> 0.3) evaluations;
             polarization_conflict =
               PolarizedOpinion
                 ''Significant divide between supporting and opposing executives''
                 (map evaluator_id supportive) (map evaluator_id opposing)
                 (if length supportive > 1 \<and> length opposing > 1 then ''high'' else ''medium'');
             polarized = (if supportive \<noteq> [] \<and> opposing \<noteq> []
                          then [polarization_conflict] else []);
             polarized_critical = filter (\<lambda>c. severity c = ''high'') polarized;
             role_conflicts = identify_role_conflicts evaluations
         in \<lparr>all_conflicts = shared @ polarized @ role_conflicts,
             critical_conflicts =
               shared_critical @ polarized_critical
                 @ filter (\<lambda>c. severity c = ''high'') role_conflicts\<rparr>))"

section \<open>Resolution method and re-estimated support\<close>

definition count_types :: "conflict list \<Rightarrow> (string \<times> nat) list" where
  "count_types cs =
     foldl (\<lambda>conflict_types c.
              (let conflict_type = c_type c in
               case map_of conflict_types conflict_type of
                 Some k \<Rightarrow> dict_set conflict_types conflict_type (k + 1)
               | None \<Rightarrow> dict_set conflict_types conflict_type 1))
           [] cs"

definition select_resolution_method :: "conflicts \<Rightarrow> ConflictResolutionMethod" where
  "select_resolution_method cf =
     (let conflict_types = count_types (all_conflicts cf) in
      if real (dict_get conflict_types ''shared_concern'' 0)
           > real (length (all_conflicts cf)) / 2 then INTEGRATIVE
      else if dict_get conflict_types ''polarized_opinion'' 0 > 0 then STRUCTURED_DEBATE
      else if dict_get conflict_types ''role_based'' 0 > 0 then WEIGHTED_VOTING
      else EVIDENCE_BASED)"

definition method_effectiveness :: "(ConflictResolutionMethod \<times> real) list" where
  "method_effectiveness =
     [(EVIDENCE_BASED, 0.15), (WEIGHTED_VOTING, 0.20), (DELPHI_METHOD, 0.25),
      (COMPROMISE, 0.15), (INTEGRATIVE, 0.30), (ESCALATION, 0.05),
      (STRUCTURED_DEBATE, 0.20), (DIALECTICAL_INQUIRY, 0.25)]"

definition estimate_new_support ::
  "real \<Rightarrow> conflicts \<Rightarrow> ConflictResolutionMethod \<Rightarrow> real" where
  "estimate_new_support current_support cf resolution_method =
     (let base_improvement = dict_get method_effectiveness resolution_method 0.15;
          critical_conflict_count = length (critical_conflicts cf);
          conflict_penalty = min (0.05 * real critical_conflict_count) 0.15;
          new_support = min 0.95 (current_support + base_improvement - conflict_penalty)
      in max current_support new_support)"

section \<open>Recommendations and the resolution methods\<close>

text \<open>
  Values stored under a key of \<^verbatim>\<open>domain_specific_analyses\<close>: whatever the proposer
  put there, or one of the three annotations of \<^verbatim>\<open>_apply_resolution_method\<close>.
\<close>

datatype analysis =
    Proposed string
  | ConsensusModifications (integrated_suggestions: "string list") (modification_note: string)
  | WeightedVotingAdjustments (top_concerns_addressed: "string list") (adjustment_note: string)
  | StructuredDebateOutcome (debate_supporting_arguments: "string list")
      (debate_opposing_arguments: "string list") (debate_outcome: string)

text \<open>
  \<^verbatim>\<open>ExecutiveRecommendation\<close>, with the fields the consensus code reads or writes;
  its other fields are copied unchanged.
\<close>

record ExecutiveRecommendation =
  title :: string
  domain_specific_analyses :: "(string \<times> analysis) list"
  uncertainty_factors :: "string list"

fun join :: "string \<Rightarrow> string list \<Rightarrow> string" where
  "join sep [] = []"
| "join sep [x] = x"
| "join sep (x # y # ys) = x @ sep @ join sep (y # ys)"

fun str_of_nat :: "nat \<Rightarrow> string" where
  "str_of_nat n =
     (if n < 10 then [char_of (48 + n)]
      else str_of_nat (n div 10) @ [char_of (48 + n mod 10)])"

definition weigh_concerns :: "ConsensusEvaluation list \<Rightarrow> (string \<times> real) list" where
  "weigh_concerns evaluations =
     foldl (\<lambda>weighted_concerns e.
              (let weight = expertise_level e * confidence e in
               foldl (\<lambda>wc c. case map_of wc c of
                                Some w \<Rightarrow> dict_set wc c (w + weight)
                              | None \<Rightarrow> dict_set wc c weight)
                     weighted_concerns (concerns e)))
           [] evaluations"

text \<open>
  The debate loop: supporting arguments of the evaluators at 0.7 or above, concerns
  of those at 0.3 or below.
\<close>

fun debate_args :: "ConsensusEvaluation list \<Rightarrow> string list \<times> string list
    \<Rightarrow> string list \<times> string list" where
  "debate_args [] acc = acc"
| "debate_args (e # es) (supporting_args, opposing_args) =
     (if agreement_level e \<ge> 0.7
      then debate_args es (supporting_args @ supporting_arguments e, opposing_args)
      else if agreement_level e \<le> 0.3
      then debate_args es (supporting_args, opposing_args @ concerns e)
      else debate_args es (supporting_args, opposing_args))"

definition apply_resolution_method ::
  "ConflictResolutionMethod \<Rightarrow> ExecutiveRecommendation \<Rightarrow> ConsensusEvaluation list
    \<Rightarrow> conflicts \<Rightarrow> ExecutiveRecommendation" where
  "apply_resolution_method method recommendation evaluations cf =
     (let modified_recommendation = recommendation in
      if method = INTEGRATIVE then
        (let all_suggestions = concat (map suggestions evaluations) in
         if all_suggestions \<noteq> [] then
           (let note0 = ''Modified to address concerns: '' @ join '', '' (take 3 all_suggestions);
                note = (if length all_suggestions > 3
                        then note0 @ '' and '' @ str_of_nat (length all_suggestions - 3)
                             @ '' more''
                        else note0)
            in modified_recommendation
                 \<lparr>domain_specific_analyses :=
                    dict_set (domain_specific_analyses modified_recommendation)
                      ''consensus_modifications''
                      (ConsensusModifications all_suggestions note)\<rparr>)
         else modified_recommendation)
      else if method = WEIGHTED_VOTING then
        (let top_concerns =
               take 2 (sort_key (\<lambda>x. - snd x) (weigh_concerns evaluations)) in
         if top_concerns \<noteq> [] then
           modified_recommendation
             \<lparr>domain_specific_analyses :=
                dict_set (domain_specific_analyses modified_recommendation)
                  ''weighted_voting_adjustments''
                  (WeightedVotingAdjustments (map fst top_concerns)
                     ''Recommendation adjusted to address highest-weighted concerns'')\<rparr>
         else modified_recommendation)
      else if method = STRUCTURED_DEBATE then
        (let (supporting_args, opposing_args) = debate_args evaluations ([], []) in
         modified_recommendation
           \<lparr>domain_specific_analyses :=
              dict_set (domain_specific_analyses modified_recommendation)
                ''structured_debate_outcome''
                (StructuredDebateOutcome supporting_args opposing_args
                   ''Recommendation adjusted to acknowledge valid opposing points while maintaining core direction'')\<rparr>)
      else
        modified_recommendation
          \<lparr>uncertainty_factors :=
             uncertainty_factors modified_recommendation
               @ [''Resolution requires additional evidence to address factual disagreements'']\<rparr>)"

section \<open>Consensus outcomes\<close>

text \<open>The time stamp of an outcome is not modelled.\<close>

record ConsensusOutcome =
  recommendation :: ExecutiveRecommendation
  consensus_level :: ConsensusLevel
  support_percentage :: real
  supporting_executives :: "string list"
  opposing_executives :: "string list"
  abstaining_executives :: "string list"
  key_conflicts :: "conflict list"
  resolution_method :: string
  modified_from_original :: bool
  modification_summary :: "string option"

text \<open>
  The pydantic constructor of \<^verbatim>\<open>ConsensusOutcome\<close>: \<^verbatim>\<open>support_percentage\<close> is
  declared with \<^verbatim>\<open>ge=0.0, le=1.0\<close>.
\<close>

definition new_ConsensusOutcome ::
  "ExecutiveRecommendation \<Rightarrow> ConsensusLevel \<Rightarrow> real \<Rightarrow> string list \<Rightarrow> string list
    \<Rightarrow> string list \<Rightarrow> conflict list \<Rightarrow> string \<Rightarrow> bool \<Rightarrow> string option
    \<Rightarrow> error + ConsensusOutcome" where
  "new_ConsensusOutcome rec lvl support supporting opposing abstaining kc rm modified summary =
     (if in_unit support
      then Inr \<lparr>recommendation = rec, consensus_level = lvl, support_percentage = support,
                supporting_executives = supporting, opposing_executives = opposing,
                abstaining_executives = abstaining, key_conflicts = kc, resolution_method = rm,
                modified_from_original = modified, modification_summary = summary\<rparr>
      else Inl ValidationError)"

definition create_consensus_outcome ::
  "ExecutiveRecommendation \<Rightarrow> support_metrics \<Rightarrow> conflicts \<Rightarrow> string \<Rightarrow> bool
    \<Rightarrow> string option \<Rightarrow> error + ConsensusOutcome" where
  "create_consensus_outcome rec metrics cf resolution_method_description modified summary =
     (let lvl = determine_consensus_level (weighted_support metrics) in
      new_ConsensusOutcome rec lvl (weighted_support metrics) [] [] []
        (critical_conflicts cf) resolution_method_description modified summary)"

record ConsensusBuilder =
  consensus_threshold :: real
  min_participation :: real
  automatic_resolution_threshold :: real
  decision_history :: "ConsensusOutcome list"

text \<open>
  \<^verbatim>\<open>build_consensus\<close> returns the outcome and the builder with the outcome appended
  to its history; an exception leaves the history as it was.  The decision context is
  handed on to \<^verbatim>\<open>_apply_resolution_method\<close>, which does not read it.
\<close>

definition record_outcome ::
  "ConsensusBuilder \<Rightarrow> error + ConsensusOutcome \<Rightarrow> error + ConsensusOutcome \<times> ConsensusBuilder"
  where
  "record_outcome b r =
     (case r of
        Inl e \<Rightarrow> Inl e
      | Inr consensus_outcome \<Rightarrow>
          Inr (consensus_outcome,
               b\<lparr>decision_history := decision_history b @ [consensus_outcome]\<rparr>))"

definition build_consensus ::
  "ConsensusBuilder \<Rightarrow> ExecutiveRecommendation \<Rightarrow> ConsensusEvaluation list
    \<Rightarrow> DecisionParticipation list \<Rightarrow> error + ConsensusOutcome \<times> ConsensusBuilder" where
  "build_consensus b rec executive_evaluations participating_executives =
     (let metrics = calculate_support_metrics executive_evaluations participating_executives;
          cf = identify_conflicts executive_evaluations in
      if weighted_support metrics \<ge> consensus_threshold b \<and> critical_conflicts cf = [] then
        record_outcome b
          (create_consensus_outcome rec metrics cf
             ''Direct consensus without conflict resolution'' False None)
      else if all_conflicts cf \<noteq> [] then
        (let method = select_resolution_method cf;
             modified_recommendation =
               apply_resolution_method method rec executive_evaluations cf;
             estimated_new_support =
               estimate_new_support (weighted_support metrics) cf method
         in record_outcome b
              (new_ConsensusOutcome modified_recommendation
                 (determine_consensus_level estimated_new_support)
                 estimated_new_support
                 (map evaluator_id (filter (\<lambda>e. agreement_level e > 0.6) executive_evaluations))
                 (map evaluator_id (filter (\<lambda>e. agreement_level e < 0.4) executive_evaluations))
                 (map evaluator_id
                    (filter (\<lambda>e. 0.4 \<le> agreement_level e \<and> agreement_level e \<le> 0.6)
                            executive_evaluations))
                 (critical_conflicts cf)
                 (ConflictResolutionMethod_value method)
                 True
                 (Some (''Recommendation modified using ''
                          @ ConflictResolutionMethod_value method @ '' resolution''))))
      else
        record_outcome b
          (create_consensus_outcome rec metrics cf
             ''Insufficient consensus without specific conflicts'' False None))"

section \<open>The executive team orchestrator\<close>

datatype UncertaintyType = STATISTICAL | SCENARIO | RECOGNIZED_IGNORANCE | TOTAL_IGNORANCE

datatype ComplexityLevel = SIMPLE | COMPLICATED | COMPLEX | CHAOTIC

text \<open>
  \<^verbatim>\<open>DecisionRequest\<close>.  Its free-form \<^verbatim>\<open>context\<close> dictionary, the deadline and the
  contexts prepared from them only travel to the executives, whose answers are
  parameters of the model.
\<close>

record DecisionRequest =
  query :: string
  constraints :: "string list"
  required_domains :: "string list"
  urgency :: int
  importance :: int
  complexity_level :: "ComplexityLevel option"
  uncertainty_types :: "UncertaintyType list"
  decision_id :: string

text \<open>
  The dictionary returned by \<^verbatim>\<open>evaluate_recommendation\<close>, read with
  \<^verbatim>\<open>.get(key, default)\<close>: a missing key is \<open>None\<close>.
\<close>

record evaluation_result =
  r_agreement_level :: "real option"
  r_concerns :: "string list option"
  r_suggestions :: "string list option"
  r_supporting_arguments :: "string list option"
  r_confidence :: "real option"

text \<open>
  \<^verbatim>\<open>BaseExecutive\<close>: name, role and the three abstract methods.  The executive context
  is computed from the request, so \<open>analyze\<close> takes the request; the \<^typ>\<open>nat\<close>
  argument is the number of the consensus round, since an executive may answer
  differently each time it is asked.
\<close>

record BaseExecutive =
  name :: string
  role :: string
  analyze :: "DecisionRequest \<Rightarrow> ExecutiveRecommendation"
  evaluate_recommendation :: "nat \<Rightarrow> ExecutiveRecommendation \<Rightarrow> evaluation_result"
  integrate_feedback ::
    "nat \<Rightarrow> ExecutiveRecommendation \<Rightarrow> ConsensusEvaluation list \<Rightarrow> ExecutiveRecommendation"

record TeamMember =
  executive :: BaseExecutive
  role_priority :: "(string \<times> int) list"
  veto_rights :: "string list"
  is_active :: bool

record ExecutiveTeamConfig =
  cfg_consensus_threshold :: real
  min_executive_participation :: real
  default_decision_framework :: string
  max_resolution_attempts :: int
  human_escalation_threshold :: real
  enable_veto :: bool
  log_decisions :: bool
  auto_select_framework :: bool

text \<open>The pydantic constructor of \<^verbatim>\<open>ExecutiveTeamConfig\<close> with its field bounds.\<close>

definition new_ExecutiveTeamConfig ::
  "real \<Rightarrow> real \<Rightarrow> string \<Rightarrow> int \<Rightarrow> real \<Rightarrow> bool \<Rightarrow> bool \<Rightarrow> bool
    \<Rightarrow> error + ExecutiveTeamConfig" where
  "new_ExecutiveTeamConfig ct mp fw attempts esc veto logd auto_fw =
     (if in_unit ct \<and> in_unit mp \<and> attempts \<ge> 1 \<and> in_unit esc
      then Inr \<lparr>cfg_consensus_threshold = ct, min_executive_participation = mp,
                default_decision_framework = fw, max_resolution_attempts = attempts,
                human_escalation_threshold = esc, enable_veto = veto,
                log_decisions = logd, auto_select_framework = auto_fw\<rparr>
      else Inl ValidationError)"

record decision_metrics =
  m_resolution_attempts :: nat
  final_support_percentage :: real
  veto_applied :: bool
  executive_count :: nat
  framework :: string
  lead_executive :: string

record DecisionOutcome =
  d_decision_id :: string
  d_query :: string
  d_recommendation :: ExecutiveRecommendation
  consensus :: ConsensusOutcome
  participating_executives :: "string list"
  selected_framework :: string
  resolution_attempts :: nat
  decision_request :: DecisionRequest
  escalated_to_human :: bool
  metrics :: decision_metrics

text \<open>
  The orchestrator: \<open>executives\<close> is keyed by executive name, \<open>frameworks\<close> maps a
  registration key to the framework's name.
\<close>

record ExecutiveTeamOrchestrator =
  config :: ExecutiveTeamConfig
  executives :: "(string \<times> TeamMember) list"
  frameworks :: "(string \<times> string) list"
  consensus_builder :: ConsensusBuilder
  o_decision_history :: "DecisionOutcome list"

definition new_ExecutiveTeamOrchestrator :: "ExecutiveTeamConfig \<Rightarrow> ExecutiveTeamOrchestrator" where
  "new_ExecutiveTeamOrchestrator cfg =
     \<lparr>config = cfg, executives = [], frameworks = [],
      consensus_builder =
        \<lparr>consensus_threshold = cfg_consensus_threshold cfg,
         min_participation = min_executive_participation cfg,
         automatic_resolution_threshold = 0.85,
         decision_history = []\<rparr>,
      o_decision_history = []\<rparr>"

definition register_executive ::
  "ExecutiveTeamOrchestrator \<Rightarrow> BaseExecutive \<Rightarrow> (string \<times> int) list \<Rightarrow> string list
    \<Rightarrow> ExecutiveTeamOrchestrator" where
  "register_executive orch ex prio veto =
     orch\<lparr>executives :=
            dict_set (executives orch) (name ex)
              \<lparr>executive = ex, role_priority = prio, veto_rights = veto, is_active = True\<rparr>\<rparr>"

record selected_executive =
  sel_executive :: BaseExecutive
  priority :: int

text \<open>
  \<^verbatim>\<open>_select_relevant_executives\<close>.  The maximum over the set of required domains does
  not depend on the order or on repetitions, so the loop runs over the list.
\<close>

definition max_priority_of :: "TeamMember \<Rightarrow> string list \<Rightarrow> int" where
  "max_priority_of member domains =
     foldl (\<lambda>max_priority domain.
              case map_of (role_priority member) domain of
                Some p \<Rightarrow> max max_priority p
              | None \<Rightarrow> max_priority)
           0 domains"

definition select_relevant_executives ::
  "ExecutiveTeamOrchestrator \<Rightarrow> DecisionRequest \<Rightarrow> selected_executive list" where
  "select_relevant_executives orch request =
     (let domains = required_domains request;
          members = map snd (executives orch) in
      if domains = [] then
        map (\<lambda>member. \<lparr>sel_executive = executive member, priority = 5\<rparr>)
            (filter is_active members)
      else
        (let selected =
               concat (map (\<lambda>member.
                              if \<not> is_active member then []
                              else (let max_priority = max_priority_of member domains in
                                    if max_priority > 0
                                    then [\<lparr>sel_executive = executive member,
                                           priority = max_priority\<rparr>]
                                    else []))
                           members);
             sorted_selected = sort_key (\<lambda>x. - priority x) selected
         in if sorted_selected = [] \<and> executives orch \<noteq> [] then
              (case find is_active members of
                 Some member \<Rightarrow> [\<lparr>sel_executive = executive member, priority = 1\<rparr>]
               | None \<Rightarrow> [])
            else sorted_selected))"

definition determine_lead_executive :: "selected_executive list \<Rightarrow> error + BaseExecutive" where
  "determine_lead_executive selected_executives =
     (case selected_executives of
        [] \<Rightarrow> Inl ValueError
      | x # _ \<Rightarrow> Inr (sel_executive x))"

definition select_decision_framework :: "ExecutiveTeamConfig \<Rightarrow> DecisionRequest \<Rightarrow> string" where
  "select_decision_framework cfg request =
     (if \<not> auto_select_framework cfg then default_decision_framework cfg
      else
        (case complexity_level request of
           Some SIMPLE \<Rightarrow> ''eisenhower_matrix''
         | Some COMPLICATED \<Rightarrow> ''kepner_tregoe''
         | Some COMPLEX \<Rightarrow> ''cynefin''
         | Some CHAOTIC \<Rightarrow> ''ooda''
         | None \<Rightarrow>
             (if urgency request \<ge> 4 then ''ooda''
              else if importance request \<ge> 4 then ''mcda''
              else if List.member (uncertainty_types request) STATISTICAL then ''bayesian''
              else default_decision_framework cfg)))"

text \<open>
  \<^verbatim>\<open>self.frameworks.get(framework_name, next(iter(self.frameworks.values())))\<close>: the
  default is evaluated first, so an orchestrator with no framework fails.
\<close>

definition lookup_framework :: "(string \<times> string) list \<Rightarrow> string \<Rightarrow> error + string" where
  "lookup_framework fws framework_name =
     (case fws of
        [] \<Rightarrow> Inl StopIteration
      | (_, first_framework) # _ \<Rightarrow> Inr (dict_get fws framework_name first_framework))"

definition get_executive_evaluation ::
  "nat \<Rightarrow> BaseExecutive \<Rightarrow> ExecutiveRecommendation \<Rightarrow> int \<Rightarrow> error + ConsensusEvaluation" where
  "get_executive_evaluation rnd ex rec prio =
     (let res = evaluate_recommendation ex rnd rec;
          expertise = min 1 (real_of_int prio / 5)
      in new_ConsensusEvaluation (title rec) (name ex) (role ex)
           (case r_agreement_level res of Some a \<Rightarrow> a | None \<Rightarrow> 0.5)
           (case r_concerns res of Some c \<Rightarrow> c | None \<Rightarrow> [])
           (case r_suggestions res of Some c \<Rightarrow> c | None \<Rightarrow> [])
           (case r_supporting_arguments res of Some c \<Rightarrow> c | None \<Rightarrow> [])
           expertise
           (case r_confidence res of Some c \<Rightarrow> c | None \<Rightarrow> 0.7))"

text \<open>
  \<^verbatim>\<open>_gather_evaluations\<close>: every selected executive but the lead is asked; the first
  failing construction fails the whole gathering.
\<close>

fun gather_evaluations ::
  "nat \<Rightarrow> ExecutiveRecommendation \<Rightarrow> selected_executive list \<Rightarrow> BaseExecutive
    \<Rightarrow> error + ConsensusEvaluation list" where
  "gather_evaluations rnd rec [] lead = Inr []"
| "gather_evaluations rnd rec (exec_info # rest) lead =
     (if name (sel_executive exec_info) = name lead
      then gather_evaluations rnd rec rest lead
      else
        (case get_executive_evaluation rnd (sel_executive exec_info) rec (priority exec_info) of
           Inl e \<Rightarrow> Inl e
         | Inr ev \<Rightarrow>
             (case gather_evaluations rnd rec rest lead of
                Inl e \<Rightarrow> Inl e
              | Inr evs \<Rightarrow> Inr (ev # evs))))"

definition participation_record :: "BaseExecutive \<Rightarrow> selected_executive \<Rightarrow> DecisionParticipation"
  where
  "participation_record lead exec_info =
     (let ex = sel_executive exec_info;
          ptype = (if name ex = name lead then ''recommender'' else ''reviewer'');
          weight0 = min 1 (real_of_int (priority exec_info) / 5);
          weight = (if ptype = ''recommender'' then max weight0 0.8 else weight0)
      in \<lparr>executive_id = name ex, executive_role = role ex, participation_type = ptype,
          contribution_weight = weight, expertise_relevance = weight\<rparr>)"

definition create_participation_records ::
  "selected_executive list \<Rightarrow> BaseExecutive \<Rightarrow> DecisionParticipation list" where
  "create_participation_records selected_executives lead =
     map (participation_record lead) selected_executives"

section \<open>Veto check and the decision loop\<close>

text \<open>
  The dictionary returned by \<^verbatim>\<open>_check_for_vetos\<close>: \<open>None\<close> stands for
  \<^verbatim>\<open>{"veto_applied": False}\<close>, \<open>Some\<close> for the dictionary with
  \<^verbatim>\<open>"veto_applied": True\<close>.
\<close>

record veto =
  veto_executive :: string
  veto_role :: string
  veto_domain :: string
  v_agreement_level :: real
  v_concerns :: "string list"

text \<open>
  The loop over \<^verbatim>\<open>self.executives.items()\<close>.  \<^verbatim>\<open>[...][0]\<close> on the list of the
  member's veto domains raises \<^verbatim>\<open>IndexError\<close> when that list is empty.
\<close>

fun check_members ::
  "string list \<Rightarrow> (string \<times> TeamMember) list \<Rightarrow> ConsensusEvaluation list
    \<Rightarrow> error + veto option" where
  "check_members recommendation_domains [] evaluations = Inr None"
| "check_members recommendation_domains ((nm, member) # rest) evaluations =
     (if \<not> is_active member then check_members recommendation_domains rest evaluations
      else
        (let has_veto_authority =
               list_ex (\<lambda>domain. List.member (veto_rights member) domain) recommendation_domains
         in if \<not> has_veto_authority
            then check_members recommendation_domains rest evaluations
            else
              (case find (\<lambda>evaluation. evaluator_id evaluation = nm
                                        \<and> agreement_level evaluation < 0.2) evaluations of
                 None \<Rightarrow> check_members recommendation_domains rest evaluations
               | Some evaluation \<Rightarrow>
                   (case filter (\<lambda>domain. List.member (veto_rights member) domain)
                                recommendation_domains of
                      [] \<Rightarrow> Inl IndexError
                    | domain # _ \<Rightarrow>
                        Inr (Some \<lparr>veto_executive = nm,
                                   veto_role = role (executive member),
                                   veto_domain = domain,
                                   v_agreement_level = agreement_level evaluation,
                                   v_concerns = concerns evaluation\<rparr>)))))"

definition check_for_vetos ::
  "ExecutiveTeamOrchestrator \<Rightarrow> ConsensusOutcome \<Rightarrow> ConsensusEvaluation list
    \<Rightarrow> error + veto option" where
  "check_for_vetos orch consensus_outcome evaluations =
     (if \<not> enable_veto (config orch) then Inr None
      else
        (let recommendation_domains =
               map fst (domain_specific_analyses (recommendation consensus_outcome))
         in check_members recommendation_domains (executives orch) evaluations))"

text \<open>
  The state of the \<^verbatim>\<open>while\<close> loop of \<^verbatim>\<open>make_decision\<close>: the current outcome, the
  current evaluations, the consensus builder and the round counter.
\<close>

record loop_state =
  ls_consensus_outcome :: ConsensusOutcome
  ls_evaluations :: "ConsensusEvaluation list"
  ls_builder :: ConsensusBuilder
  ls_resolution_attempts :: nat

definition loop_condition :: "ExecutiveTeamConfig \<Rightarrow> loop_state \<Rightarrow> bool" where
  "loop_condition cfg st =
     (List.member [''divided_opinion'', ''strong_disagreement'']
        (ConsensusLevel_value (consensus_level (ls_consensus_outcome st)))
      \<and> int (ls_resolution_attempts st) < max_resolution_attempts cfg)"

text \<open>One pass through the body of the loop.\<close>

definition loop_body ::
  "selected_executive list \<Rightarrow> BaseExecutive \<Rightarrow> ExecutiveRecommendation
    \<Rightarrow> DecisionParticipation list \<Rightarrow> loop_state \<Rightarrow> error + loop_state" where
  "loop_body selected_executives lead primary_recommendation participating_execs st =
     (let updated_recommendation =
            integrate_feedback lead (ls_resolution_attempts st) primary_recommendation
              (ls_evaluations st)
      in case gather_evaluations (ls_resolution_attempts st + 1) updated_recommendation
                selected_executives lead of
           Inl e \<Rightarrow> Inl e
         | Inr evaluations \<Rightarrow>
             (case build_consensus (ls_builder st) updated_recommendation evaluations
                     participating_execs of
                Inl e \<Rightarrow> Inl e
              | Inr (consensus_outcome, b) \<Rightarrow>
                  Inr \<lparr>ls_consensus_outcome = consensus_outcome,
                       ls_evaluations = evaluations,
                       ls_builder = b,
                       ls_resolution_attempts = ls_resolution_attempts st + 1\<rparr>))"

function resolution_loop ::
  "ExecutiveTeamConfig \<Rightarrow> selected_executive list \<Rightarrow> BaseExecutive \<Rightarrow> ExecutiveRecommendation
    \<Rightarrow> DecisionParticipation list \<Rightarrow> loop_state \<Rightarrow> error + loop_state" where
  "resolution_loop cfg selected_executives lead primary_recommendation participating_execs st =
     (if loop_condition cfg st then
        (case loop_body selected_executives lead primary_recommendation participating_execs st of
           Inl e \<Rightarrow> Inl e
         | Inr st' \<Rightarrow>
             resolution_loop cfg selected_executives lead primary_recommendation
               participating_execs st')
      else Inr st)"
  by pat_completeness auto
termination
proof (relation "measure (\<lambda>(cfg, sel, lead, prim, parts, st).
                   nat (max_resolution_attempts cfg - int (ls_resolution_attempts st)))")
  show "wf (measure (\<lambda>(cfg, sel, lead, prim, parts, st).
                   nat (max_resolution_attempts cfg - int (ls_resolution_attempts st))))"
    by simp
next
  fix cfg :: ExecutiveTeamConfig and sel lead prim parts and st st' :: loop_state
  assume c: "loop_condition cfg st" and b: "loop_body sel lead prim parts st = Inr st'"
  from b have "ls_resolution_attempts st' = ls_resolution_attempts st + 1"
    by (auto simp: loop_body_def Let_def split: sum.splits prod.splits)
  with c show "((cfg, sel, lead, prim, parts, st'), (cfg, sel, lead, prim, parts, st))
        \<in> measure (\<lambda>(cfg, sel, lead, prim, parts, st).
                   nat (max_resolution_attempts cfg - int (ls_resolution_attempts st)))"
    by (simp add: loop_condition_def)
qed

declare resolution_loop.simps [simp del]

text \<open>
  Steps 8 to 11 of \<^verbatim>\<open>make_decision\<close>: escalation on low support, the veto check, the
  decision outcome and the log.
\<close>

definition finish_decision ::
  "ExecutiveTeamOrchestrator \<Rightarrow> DecisionRequest \<Rightarrow> selected_executive list \<Rightarrow> string
    \<Rightarrow> BaseExecutive \<Rightarrow> loop_state \<Rightarrow> error + DecisionOutcome \<times> ExecutiveTeamOrchestrator" where
  "finish_decision orch request selected_executives framework_name lead st =
     (let consensus_outcome = ls_consensus_outcome st;
          low_support =
            (support_percentage consensus_outcome < human_escalation_threshold (config orch))
      in case check_for_vetos orch consensus_outcome (ls_evaluations st) of
           Inl e \<Rightarrow> Inl e
         | Inr veto_result \<Rightarrow>
             (let human_escalated = (if veto_result \<noteq> None then True else low_support);
                  decision_outcome =
                    \<lparr>d_decision_id = decision_id request,
                     d_query = query request,
                     d_recommendation = recommendation consensus_outcome,
                     consensus = consensus_outcome,
                     participating_executives =
                       map (\<lambda>e. name (sel_executive e)) selected_executives,
                     selected_framework = framework_name,
                     resolution_attempts = ls_resolution_attempts st,
                     decision_request = request,
                     escalated_to_human = human_escalated,
                     metrics =
                       \<lparr>m_resolution_attempts = ls_resolution_attempts st,
                        final_support_percentage = support_percentage consensus_outcome,
                        veto_applied = (veto_result \<noteq> None),
                        executive_count = length selected_executives,
                        framework = framework_name,
                        lead_executive = name lead\<rparr>\<rparr>
              in Inr (decision_outcome,
                      orch\<lparr>consensus_builder := ls_builder st,
                           o_decision_history :=
                             (if log_decisions (config orch)
                              then o_decision_history orch @ [decision_outcome]
                              else o_decision_history orch)\<rparr>)))"

text \<open>
  \<^verbatim>\<open>make_decision\<close>.  The result carries the orchestrator after the run; a run that
  raises is \<open>Inl\<close>.
\<close>

definition make_decision ::
  "ExecutiveTeamOrchestrator \<Rightarrow> DecisionRequest
    \<Rightarrow> error + DecisionOutcome \<times> ExecutiveTeamOrchestrator" where
  "make_decision orch request =
     (let selected_executives = select_relevant_executives orch request;
          framework_name = select_decision_framework (config orch) request
      in case lookup_framework (frameworks orch) framework_name of
           Inl e \<Rightarrow> Inl e
         | Inr fw \<Rightarrow>
        (case determine_lead_executive selected_executives of
           Inl e \<Rightarrow> Inl e
         | Inr lead \<Rightarrow>
        (let primary_recommendation = analyze lead request
         in case gather_evaluations 1 primary_recommendation selected_executives lead of
              Inl e \<Rightarrow> Inl e
            | Inr evaluations \<Rightarrow>
        (let participating_execs = create_participation_records selected_executives lead
         in case build_consensus (consensus_builder orch) primary_recommendation evaluations
                   participating_execs of
              Inl e \<Rightarrow> Inl e
            | Inr (consensus_outcome, b) \<Rightarrow>
        (case resolution_loop (config orch) selected_executives lead primary_recommendation
                participating_execs
                \<lparr>ls_consensus_outcome = consensus_outcome, ls_evaluations = evaluations,
                 ls_builder = b, ls_resolution_attempts = 1\<rparr> of
           Inl e \<Rightarrow> Inl e
         | Inr st \<Rightarrow>
             finish_decision orch request selected_executives fw lead st)))))"

section \<open>A small team for concrete runs\<close>

text \<open>
  \<^verbatim>\<open>register_framework\<close> stores a framework under its name in lower case with
  underscores for spaces.
\<close>

definition register_framework ::
  "ExecutiveTeamOrchestrator \<Rightarrow> string \<Rightarrow> ExecutiveTeamOrchestrator" where
  "register_framework orch framework_name =
     orch\<lparr>frameworks :=
            dict_set (frameworks orch)
              (map (\<lambda>c. if c = CHR '' '' then CHR ''_'' else c) (lower framework_name))
              framework_name\<rparr>"

text \<open>
  An executive that proposes a recommendation with a risk analysis, always answers with
  the same agreement level and returns the recommendation unchanged when asked to
  integrate feedback.
\<close>

definition example_recommendation :: "DecisionRequest \<Rightarrow> ExecutiveRecommendation" where
  "example_recommendation request =
     \<lparr>title = query request,
      domain_specific_analyses = [(''risk'', Proposed ''exposure'')],
      uncertainty_factors = []\<rparr>"

definition example_answer :: "real \<Rightarrow> evaluation_result" where
  "example_answer a =
     \<lparr>r_agreement_level = Some a, r_concerns = None, r_suggestions = None,
      r_supporting_arguments = None, r_confidence = None\<rparr>"

definition example_executive :: "string \<Rightarrow> string \<Rightarrow> real \<Rightarrow> BaseExecutive" where
  "example_executive nm rl a =
     \<lparr>name = nm, role = rl,
      analyze = example_recommendation,
      evaluate_recommendation = (\<lambda>rnd rec. example_answer a),
      integrate_feedback = (\<lambda>rnd rec feedback. rec)\<rparr>"

definition example_config :: ExecutiveTeamConfig where
  "example_config =
     \<lparr>cfg_consensus_threshold = 0.7, min_executive_participation = 0.6,
      default_decision_framework = ''bayesian'', max_resolution_attempts = 2,
      human_escalation_threshold = 0.3, enable_veto = True, log_decisions = True,
      auto_select_framework = True\<rparr>"

definition example_request :: DecisionRequest where
  "example_request =
     \<lparr>query = ''Should we expand into the European market?'', constraints = [],
      required_domains = [], urgency = 1, importance = 1, complexity_level = None,
      uncertainty_types = [], decision_id = ''d1''\<rparr>"

text \<open>
  The strategy executive leads; the risk executive, with veto rights in the domain
  \<^verbatim>\<open>risk\<close>, reviews with agreement level \<open>a\<close>.
\<close>

definition example_team :: "real \<Rightarrow> ExecutiveTeamOrchestrator" where
  "example_team a =
     register_framework
       (register_executive
          (register_executive (new_ExecutiveTeamOrchestrator example_config)
             (example_executive ''Strategy Executive'' ''CSO'' 1) [] [])
          (example_executive ''Risk Management Executive'' ''CRO'' a) [] [''risk''])
       ''bayesian''"

text \<open>The same team with a finance executive who fully agrees.\<close>

definition example_board :: ExecutiveTeamOrchestrator where
  "example_board =
     register_executive (example_team 0.1)
       (example_executive ''Finance Executive'' ''CFO'' 1) [] []"

definition example_evaluation :: "string \<Rightarrow> string \<Rightarrow> real \<Rightarrow> ConsensusEvaluation" where
  "example_evaluation eid rl a =
     \<lparr>recommendation_id = ''Should we expand into the European market?'',
      evaluator_id = eid, evaluator_role = rl, agreement_level = a, concerns = [],
      suggestions = [], supporting_arguments = [], expertise_level = 1, confidence = 0.7\<rparr>"

definition example_participation :: "string \<Rightarrow> string \<Rightarrow> string \<Rightarrow> real \<Rightarrow> DecisionParticipation"
  where
  "example_participation eid rl ptype w =
     \<lparr>executive_id = eid, executive_role = rl, participation_type = ptype,
      contribution_weight = w, expertise_relevance = w\<rparr>"

section \<open>Properties of the classifier, the estimate and the method selector\<close>

lemma map_of_dict_set: "map_of (dict_set d k v) = (map_of d)(k \<mapsto> v)"
  by (induction d k v rule: dict_set.induct) auto

lemma dict_get_step:
  "dict_get (case map_of acc (c_type c) of
                 Some k \<Rightarrow> dict_set acc (c_type c) (k + 1)
               | None \<Rightarrow> dict_set acc (c_type c) 1) t 0
   = dict_get acc t (0::nat) + (if c_type c = t then 1 else 0)"
  by (auto simp: dict_get_def map_of_dict_set split: option.splits)

lemma dict_get_count_step:
  "dict_get (foldl (\<lambda>conflict_types c.
              (let conflict_type = c_type c in
               case map_of conflict_types conflict_type of
                 Some k \<Rightarrow> dict_set conflict_types conflict_type (k + 1)
               | None \<Rightarrow> dict_set conflict_types conflict_type 1)) acc cs) t 0
   = dict_get acc t (0::nat) + length (filter (\<lambda>c. c_type c = t) cs)"
proof (induction cs arbitrary: acc)
  case Nil
  then show ?case by simp
next
  case (Cons c cs)
  let ?f = "\<lambda>(conflict_types :: (string \<times> nat) list) c.
              (let conflict_type = c_type c in
               case map_of conflict_types conflict_type of
                 Some k \<Rightarrow> dict_set conflict_types conflict_type (k + 1)
               | None \<Rightarrow> dict_set conflict_types conflict_type 1)"
  have "dict_get (foldl ?f acc (c # cs)) t 0 = dict_get (foldl ?f (?f acc c) cs) t 0"
    by simp
  also have "\<dots> = dict_get (?f acc c) t 0 + length (filter (\<lambda>c. c_type c = t) cs)"
    by (rule Cons.IH)
  also have "dict_get (?f acc c) t 0 = dict_get acc t 0 + (if c_type c = t then 1 else 0)"
    by (simp only: Let_def dict_get_step)
  finally show ?case by simp
qed

lemma dict_get_count_types:
  "dict_get (count_types cs) t 0 = length (filter (\<lambda>c. c_type c = t) cs)"
  by (simp add: count_types_def dict_get_count_step) (simp add: dict_get_def)

text \<open>
  Claim C4.  The consensus level depends on the support percentage alone: strong consensus
  from 0.90, general consensus from 0.75, majority agreement from 0.60, divided opinion
  from 0.40, strong disagreement below; so the level never falls when the support rises.
\<close>

theorem determine_consensus_level_thresholds:
  "(s \<ge> 0.9 \<longrightarrow> determine_consensus_level s = STRONG_CONSENSUS)
   \<and> (0.75 \<le> s \<and> s < 0.9 \<longrightarrow> determine_consensus_level s = GENERAL_CONSENSUS)
   \<and> (0.6 \<le> s \<and> s < 0.75 \<longrightarrow> determine_consensus_level s = MAJORITY_AGREEMENT)
   \<and> (0.4 \<le> s \<and> s < 0.6 \<longrightarrow> determine_consensus_level s = DIVIDED_OPINION)
   \<and> (s < 0.4 \<longrightarrow> determine_consensus_level s = STRONG_DISAGREEMENT)
   \<and> (s \<le> t \<longrightarrow> level_rank (determine_consensus_level s)
                   \<le> level_rank (determine_consensus_level t))"
  by (simp add: determine_consensus_level_def)

theorem determine_consensus_level_witness:
  "determine_consensus_level 0.95 = STRONG_CONSENSUS
   \<and> determine_consensus_level 0.8 = GENERAL_CONSENSUS
   \<and> determine_consensus_level 0.6 = MAJORITY_AGREEMENT
   \<and> determine_consensus_level 0.4 = DIVIDED_OPINION
   \<and> determine_consensus_level 0.39 = STRONG_DISAGREEMENT
   \<and> level_rank (determine_consensus_level 0.39) \<le> level_rank (determine_consensus_level 0.8)"
  using determine_consensus_level_thresholds [of "0.95" "0.95"]
    determine_consensus_level_thresholds [of "0.8" "0.8"]
    determine_consensus_level_thresholds [of "0.6" "0.6"]
    determine_consensus_level_thresholds [of "0.4" "0.4"]
    determine_consensus_level_thresholds [of "0.39" "0.8"]
  by simp

text \<open>
  Claim C5.  The estimated new support is the current support plus the method's fixed
  effectiveness minus the penalty of 0.05 per critical conflict (at most 0.15), capped at
  0.95 and floored at the current support; it is never below the current support.
\<close>

theorem estimate_new_support_formula:
  "estimate_new_support current_support cf m =
     max current_support
       (min 0.95
          (current_support
             + (case m of
                  EVIDENCE_BASED \<Rightarrow> 0.15 | WEIGHTED_VOTING \<Rightarrow> 0.20 | DELPHI_METHOD \<Rightarrow> 0.25
                | COMPROMISE \<Rightarrow> 0.15 | INTEGRATIVE \<Rightarrow> 0.30 | ESCALATION \<Rightarrow> 0.05
                | STRUCTURED_DEBATE \<Rightarrow> 0.20 | DIALECTICAL_INQUIRY \<Rightarrow> 0.25)
             - min (0.05 * real (length (critical_conflicts cf))) 0.15))
   \<and> current_support \<le> estimate_new_support current_support cf m"
  by (cases m) (simp_all add: estimate_new_support_def method_effectiveness_def dict_get_def)

theorem estimate_new_support_witness:
  "estimate_new_support 0.5 \<lparr>all_conflicts = [], critical_conflicts = []\<rparr> INTEGRATIVE = 0.8
   \<and> estimate_new_support 0.9 \<lparr>all_conflicts = [], critical_conflicts = []\<rparr> ESCALATION = 0.95
   \<and> estimate_new_support 0.97 \<lparr>all_conflicts = [], critical_conflicts = []\<rparr> COMPROMISE = 0.97"
  using estimate_new_support_formula
      [of "0.5" "\<lparr>all_conflicts = [], critical_conflicts = []\<rparr>" INTEGRATIVE]
    estimate_new_support_formula
      [of "0.9" "\<lparr>all_conflicts = [], critical_conflicts = []\<rparr>" ESCALATION]
    estimate_new_support_formula
      [of "0.97" "\<lparr>all_conflicts = [], critical_conflicts = []\<rparr>" COMPROMISE]
  by simp

text \<open>
  Claim C6.  The resolution method is chosen by a fixed priority: integrative when the
  shared-concern conflicts are more than half of all conflicts, else structured debate
  when some conflict is a polarized opinion, else weighted voting when some conflict is
  role based, else evidence based.
\<close>

theorem select_resolution_method_priority:
  "select_resolution_method cf =
     (if real (length (filter (\<lambda>c. c_type c = ''shared_concern'') (all_conflicts cf)))
           > real (length (all_conflicts cf)) / 2 then INTEGRATIVE
      else if (\<exists>c \<in> set (all_conflicts cf). c_type c = ''polarized_opinion'')
        then STRUCTURED_DEBATE
      else if (\<exists>c \<in> set (all_conflicts cf). c_type c = ''role_based'') then WEIGHTED_VOTING
      else EVIDENCE_BASED)"
  by (simp add: select_resolution_method_def dict_get_count_types filter_empty_conv
      del: of_nat_less_iff)

theorem select_resolution_method_witness:
  "select_resolution_method
     \<lparr>all_conflicts =
        [SharedConcern ''cost'' [''cfo'', ''coo''] ''low'',
         PolarizedOpinion ''divide'' [''ceo''] [''cfo''] ''medium''],
      critical_conflicts = []\<rparr> = STRUCTURED_DEBATE
   \<and> select_resolution_method
     \<lparr>all_conflicts = [SharedConcern ''cost'' [''cfo'', ''coo''] ''low''],
      critical_conflicts = []\<rparr> = INTEGRATIVE
   \<and> select_resolution_method
     \<lparr>all_conflicts = [RoleBased ''roles'' ''CEO'' ''CFO'' 0.5 ''medium''],
      critical_conflicts = []\<rparr> = WEIGHTED_VOTING"
  using select_resolution_method_priority
      [of "\<lparr>all_conflicts =
              [SharedConcern ''cost'' [''cfo'', ''coo''] ''low'',
               PolarizedOpinion ''divide'' [''ceo''] [''cfo''] ''medium''],
            critical_conflicts = []\<rparr>"]
    select_resolution_method_priority
      [of "\<lparr>all_conflicts = [SharedConcern ''cost'' [''cfo'', ''coo''] ''low''],
            critical_conflicts = []\<rparr>"]
    select_resolution_method_priority
      [of "\<lparr>all_conflicts = [RoleBased ''roles'' ''CEO'' ''CFO'' 0.5 ''medium''],
            critical_conflicts = []\<rparr>"]
  by simp

section \<open>Conflict detection\<close>

lemma role_pair_conflict_type:
  "c \<in> set (role_pair_conflict g1 g2) \<Longrightarrow> c_type c = ''role_based''"
  by (auto simp: role_pair_conflict_def Let_def split: if_splits)

lemma identify_role_conflicts_type:
  "c \<in> set (identify_role_conflicts evs) \<Longrightarrow> c_type c = ''role_based''"
  by (auto simp: identify_role_conflicts_def Let_def role_pair_conflict_type split: if_splits)

lemma shared_concern_conflict_type:
  "c_type (shared_concern_conflict n v) = ''shared_concern''"
  by (simp add: shared_concern_conflict_def)

lemma filter_polarized_shared:
  "filter (\<lambda>c. c_type c = ''polarized_opinion'') (map (shared_concern_conflict n) vs) = []"
  by (simp add: filter_empty_conv shared_concern_conflict_type)

lemma filter_polarized_role:
  "filter (\<lambda>c. c_type c = ''polarized_opinion'') (identify_role_conflicts evs) = []"
  by (auto simp: filter_empty_conv dest: identify_role_conflicts_type)

lemma filter_polarized_role_high:
  "filter (\<lambda>c. severity c = ''high'' \<and> c_type c = ''polarized_opinion'')
     (identify_role_conflicts evs) = []"
  by (auto simp: filter_empty_conv dest: identify_role_conflicts_type)

text \<open>
  Claim C7.  For at least two evaluations, the detected conflicts hold exactly one
  polarized-opinion conflict when both the supportive set (agreement at least 0.7) and
  the opposing set (agreement at most 0.3) are non-empty, and none otherwise; its
  severity is high when both sets have at least two members and medium otherwise; it is
  among the critical conflicts exactly when its severity is high.
\<close>

theorem polarized_opinion_conflict:
  assumes "length evaluations \<ge> 2"
  shows "filter (\<lambda>c. c_type c = ''polarized_opinion'')
           (all_conflicts (identify_conflicts evaluations)) =
         (let supportive = filter (\<lambda>e. agreement_level e \<ge> 0.7) evaluations;
              opposing = filter (\<lambda>e. agreement_level e \<le> 0.3) evaluations
          in if supportive \<noteq> [] \<and> opposing \<noteq> []
             then [PolarizedOpinion
                     ''Significant divide between supporting and opposing executives''
                     (map evaluator_id supportive) (map evaluator_id opposing)
                     (if length supportive \<ge> 2 \<and> length opposing \<ge> 2
                      then ''high'' else ''medium'')]
             else [])
       \<and> filter (\<lambda>c. c_type c = ''polarized_opinion'')
           (critical_conflicts (identify_conflicts evaluations)) =
         filter (\<lambda>c. severity c = ''high'')
           (filter (\<lambda>c. c_type c = ''polarized_opinion'')
              (all_conflicts (identify_conflicts evaluations)))"
proof -
  have n: "\<not> length evaluations < 2" using assms by simp
  have two: "\<And>xs :: ConsensusEvaluation list. (2 \<le> length xs) = (1 < length xs)" by auto
  show ?thesis
    unfolding identify_conflicts_def Let_def
    by (simp add: n two filter_polarized_shared filter_polarized_role
        filter_polarized_role_high)
qed

lemmas example_defs =
  example_team_def example_config_def example_executive_def example_recommendation_def
  example_request_def example_evaluation_def example_participation_def example_answer_def
  new_ExecutiveTeamOrchestrator_def register_executive_def register_framework_def

lemmas build_consensus_defs =
  build_consensus_def calculate_support_metrics_def identify_conflicts_def
  create_consensus_outcome_def new_ConsensusOutcome_def record_outcome_def
  determine_consensus_level_def in_unit_def Let_def

theorem polarized_opinion_witness:
  "2 \<le> length [example_evaluation ''a'' ''CSO'' 0.9, example_evaluation ''b'' ''CSO'' 0.9,
                 example_evaluation ''c'' ''CSO'' 0.1, example_evaluation ''d'' ''CSO'' 0.1]
   \<and> filter (\<lambda>c. c_type c = ''polarized_opinion'')
        (all_conflicts (identify_conflicts
           [example_evaluation ''a'' ''CSO'' 0.9, example_evaluation ''b'' ''CSO'' 0.9,
            example_evaluation ''c'' ''CSO'' 0.1, example_evaluation ''d'' ''CSO'' 0.1]))
      = [PolarizedOpinion ''Significant divide between supporting and opposing executives''
           [''a'', ''b''] [''c'', ''d''] ''high'']
   \<and> filter (\<lambda>c. c_type c = ''polarized_opinion'')
        (critical_conflicts (identify_conflicts
           [example_evaluation ''a'' ''CSO'' 0.9, example_evaluation ''b'' ''CSO'' 0.9,
            example_evaluation ''c'' ''CSO'' 0.1, example_evaluation ''d'' ''CSO'' 0.1]))
      = [PolarizedOpinion ''Significant divide between supporting and opposing executives''
           [''a'', ''b''] [''c'', ''d''] ''high'']"
proof -
  let ?evs = "[example_evaluation ''a'' ''CSO'' 0.9, example_evaluation ''b'' ''CSO'' 0.9,
               example_evaluation ''c'' ''CSO'' 0.1, example_evaluation ''d'' ''CSO'' 0.1]"
  have len: "2 \<le> length ?evs" by simp
  note t = polarized_opinion_conflict [OF len]
  have a: "filter (\<lambda>c. c_type c = ''polarized_opinion'')
             (all_conflicts (identify_conflicts ?evs))
           = [PolarizedOpinion ''Significant divide between supporting and opposing executives''
                [''a'', ''b''] [''c'', ''d''] ''high'']"
    unfolding t [THEN conjunct1] by (simp add: example_evaluation_def)
  have b: "filter (\<lambda>c. c_type c = ''polarized_opinion'')
             (critical_conflicts (identify_conflicts ?evs))
           = [PolarizedOpinion ''Significant divide between supporting and opposing executives''
                [''a'', ''b''] [''c'', ''d''] ''high'']"
    unfolding t [THEN conjunct2] a by simp
  from len a b show ?thesis by blast
qed

section \<open>Bounds of the support metrics\<close>

lemma sum_agreement_bounds:
  "\<forall>e \<in> set es. in_unit (agreement_level e) \<Longrightarrow>
     0 \<le> sum_list (map agreement_level es)
     \<and> sum_list (map agreement_level es) \<le> real (length es)"
  by (induction es) (auto simp: in_unit_def)

lemma weigh_bounds:
  assumes "\<forall>e \<in> set es. in_unit (agreement_level e)"
      and "\<forall>p \<in> set ps. 0 \<le> expertise_relevance p * contribution_weight p"
      and "0 \<le> sum_list wa" and "sum_list wa \<le> tw"
  shows "0 \<le> sum_list (fst (weigh ps es (wa, tw)))
         \<and> sum_list (fst (weigh ps es (wa, tw))) \<le> snd (weigh ps es (wa, tw))"
  using assms
proof (induction es arbitrary: wa tw)
  case Nil
  then show ?case by simp
next
  case (Cons e es)
  have a: "0 \<le> agreement_level e" "agreement_level e \<le> 1"
    using Cons.prems(1) by (simp_all add: in_unit_def)
  have rest: "\<forall>e \<in> set es. in_unit (agreement_level e)"
    using Cons.prems(1) by simp
  show ?case
  proof (cases "find (\<lambda>p. executive_id p = evaluator_id e) ps")
    case None
    then show ?thesis
      using Cons.IH [OF rest Cons.prems(2) Cons.prems(3) Cons.prems(4)] by simp
  next
    case (Some p)
    then have "p \<in> set ps"
      by (auto simp: find_Some_iff)
    then have w: "0 \<le> expertise_relevance p * contribution_weight p"
      using Cons.prems(2) by blast
    let ?w = "expertise_relevance p * contribution_weight p"
    have lo: "0 \<le> sum_list (wa @ [agreement_level e * ?w])"
      using Cons.prems(3) a(1) w by simp
    have "agreement_level e * ?w \<le> 1 * ?w"
      using a(2) w by (rule mult_right_mono)
    then have hi: "sum_list (wa @ [agreement_level e * ?w]) \<le> tw + ?w"
      using Cons.prems(4) by simp
    show ?thesis
      using Cons.IH [OF rest Cons.prems(2) lo hi] Some by (simp add: Let_def)
  qed
qed

text \<open>
  Claim C8.  With agreement levels and participation weights in the unit interval, the
  weighted and the unweighted support lie in the unit interval; both are 0 for the empty
  evaluation set, and the weighted support is the unweighted one when the total matched
  weight is zero.
\<close>

theorem support_metrics_in_unit:
  assumes "\<forall>e \<in> set evaluations. in_unit (agreement_level e)"
      and "\<forall>p \<in> set participation.
             in_unit (contribution_weight p) \<and> in_unit (expertise_relevance p)"
  shows "in_unit (weighted_support
                    (calculate_support_metrics evaluations participation))
       \<and> in_unit (unweighted_support
                    (calculate_support_metrics evaluations participation))
       \<and> (evaluations = [] \<longrightarrow>
            weighted_support
              (calculate_support_metrics evaluations participation) = 0
            \<and> unweighted_support
              (calculate_support_metrics evaluations participation) = 0)
       \<and> (snd (weigh participation evaluations ([], 0)) = 0 \<longrightarrow>
            weighted_support
              (calculate_support_metrics evaluations participation)
            = unweighted_support
              (calculate_support_metrics evaluations participation))"
proof (cases "evaluations = []")
  case True
  then show ?thesis
    by (simp add: calculate_support_metrics_def in_unit_def)
next
  case False
  obtain wa tw where wt: "weigh participation evaluations ([], 0) = (wa, tw)"
    by (cases "weigh participation evaluations ([], 0)")
  have len: "0 < real (length evaluations)"
    using False by simp
  have u: "0 \<le> sum_list (map agreement_level evaluations)"
          "sum_list (map agreement_level evaluations) \<le> real (length evaluations)"
    using sum_agreement_bounds [OF assms(1)] by simp_all
  have unw: "in_unit (sum_list (map agreement_level evaluations) / real (length evaluations))"
    using u len by (simp add: in_unit_def)
  have nonneg: "\<forall>p \<in> set participation.
                  0 \<le> expertise_relevance p * contribution_weight p"
    using assms(2) by (simp add: in_unit_def)
  have b: "0 \<le> sum_list wa" "sum_list wa \<le> tw"
    using weigh_bounds [OF assms(1) nonneg, of "[]" 0] wt by simp_all
  have wgt: "0 < tw \<Longrightarrow> in_unit (sum_list wa / tw)"
    using b by (simp add: in_unit_def)
  show ?thesis
    using False unw wgt
    by (simp add: calculate_support_metrics_def Let_def wt)
qed

theorem support_metrics_witness:
  "in_unit (weighted_support (calculate_support_metrics
       [example_evaluation ''b'' ''CFO'' 0.9, example_evaluation ''c'' ''COO'' 0.3]
       [example_participation ''a'' ''CSO'' ''recommender'' 1,
        example_participation ''b'' ''CFO'' ''reviewer'' 0.5,
        example_participation ''c'' ''COO'' ''reviewer'' 1]))
   \<and> in_unit (unweighted_support (calculate_support_metrics
       [example_evaluation ''b'' ''CFO'' 0.9, example_evaluation ''c'' ''COO'' 0.3]
       [example_participation ''a'' ''CSO'' ''recommender'' 1,
        example_participation ''b'' ''CFO'' ''reviewer'' 0.5,
        example_participation ''c'' ''COO'' ''reviewer'' 1]))
   \<and> weighted_support (calculate_support_metrics [] []) = 0
   \<and> unweighted_support (calculate_support_metrics [] []) = 0
   \<and> snd (weigh [] [example_evaluation ''b'' ''CFO'' 0.9] ([], 0)) = 0
   \<and> weighted_support (calculate_support_metrics [example_evaluation ''b'' ''CFO'' 0.9] [])
      = unweighted_support (calculate_support_metrics [example_evaluation ''b'' ''CFO'' 0.9] [])"
  using support_metrics_in_unit
      [of "[example_evaluation ''b'' ''CFO'' 0.9, example_evaluation ''c'' ''COO'' 0.3]"
          "[example_participation ''a'' ''CSO'' ''recommender'' 1,
            example_participation ''b'' ''CFO'' ''reviewer'' 0.5,
            example_participation ''c'' ''COO'' ''reviewer'' 1]"]
    support_metrics_in_unit [of "[]" "[]"]
    support_metrics_in_unit [of "[example_evaluation ''b'' ''CFO'' 0.9]" "[]"]
  by (simp add: example_evaluation_def example_participation_def in_unit_def)

section \<open>Outcome lists and record construction\<close>


text \<open>
  Claim C1.  The claim asks for the three executive lists to follow the agreement bands on
  every path.  On the direct-consensus path the outcome is built by
  \<^verbatim>\<open>_create_consensus_outcome\<close>, which stores three empty lists: here the only
  evaluator agrees at 0.9, above 0.6, and is not listed as supporting.
\<close>

theorem direct_consensus_lists_empty:
  "\<exists>out b.
     build_consensus (consensus_builder (example_team 0.9))
       (example_recommendation example_request)
       [example_evaluation ''Risk Management Executive'' ''CRO'' 0.9]
       [example_participation ''Strategy Executive'' ''CSO'' ''recommender'' 1,
        example_participation ''Risk Management Executive'' ''CRO'' ''reviewer'' 1]
     = Inr (out, b)
     \<and> resolution_method out = ''Direct consensus without conflict resolution''
     \<and> supporting_executives out = []
     \<and> map evaluator_id
          (filter (\<lambda>e. agreement_level e > 0.6)
             [example_evaluation ''Risk Management Executive'' ''CRO'' 0.9])
        = [''Risk Management Executive'']"
  by (simp add: build_consensus_defs example_defs)

lemma insufficient_consensus_lists_empty:
  "\<exists>out b.
     build_consensus (consensus_builder (example_team 0.5))
       (example_recommendation example_request)
       [example_evaluation ''Risk Management Executive'' ''CRO'' 0.5]
       [example_participation ''Strategy Executive'' ''CSO'' ''recommender'' 1,
        example_participation ''Risk Management Executive'' ''CRO'' ''reviewer'' 1]
     = Inr (out, b)
     \<and> resolution_method out = ''Insufficient consensus without specific conflicts''
     \<and> abstaining_executives out = []
     \<and> map evaluator_id
          (filter (\<lambda>e. 0.4 \<le> agreement_level e \<and> agreement_level e \<le> 0.6)
             [example_evaluation ''Risk Management Executive'' ''CRO'' 0.5])
        = [''Risk Management Executive'']"
  by (simp add: build_consensus_defs example_defs)




section \<open>The decision loop\<close>

lemma record_outcome_Inr:
  "record_outcome b r = Inr (out, b') \<Longrightarrow>
     r = Inr out \<and> b' = b\<lparr>decision_history := decision_history b @ [out]\<rparr>"
  by (auto simp: record_outcome_def split: sum.splits)

lemma build_consensus_history:
  "build_consensus b rec evs ps = Inr (out, b') \<Longrightarrow>
     decision_history b' = decision_history b @ [out]"
  by (auto simp: build_consensus_def Let_def split: if_splits dest!: record_outcome_Inr)

lemma loop_body_Inr:
  assumes "loop_body sel lead prim parts st = Inr st'"
  shows "ls_resolution_attempts st' = ls_resolution_attempts st + 1"
    and "decision_history (ls_builder st')
         = decision_history (ls_builder st) @ [ls_consensus_outcome st']"
    and "gather_evaluations (ls_resolution_attempts st + 1)
           (integrate_feedback lead (ls_resolution_attempts st) prim (ls_evaluations st))
           sel lead = Inr (ls_evaluations st')"
  using assms
  by (auto simp: loop_body_def Let_def split: sum.splits prod.splits
      dest: build_consensus_history)

lemma resolution_loop_result:
  "resolution_loop cfg sel lead prim parts st = Inr st' \<Longrightarrow>
     \<not> loop_condition cfg st'
     \<and> ls_resolution_attempts st \<le> ls_resolution_attempts st'
     \<and> (int (ls_resolution_attempts st) \<le> max_resolution_attempts cfg
          \<longrightarrow> int (ls_resolution_attempts st') \<le> max_resolution_attempts cfg)
     \<and> length (decision_history (ls_builder st'))
        = length (decision_history (ls_builder st))
          + (ls_resolution_attempts st' - ls_resolution_attempts st)"
proof (induction cfg sel lead prim parts st rule: resolution_loop.induct)
  case (1 cfg sel lead prim parts st)
  show ?case
  proof (cases "loop_condition cfg st")
    case False
    with "1.prems" have "st' = st"
      by (simp add: resolution_loop.simps)
    with False show ?thesis by simp
  next
    case True
    with "1.prems" obtain st1 where
      body: "loop_body sel lead prim parts st = Inr st1" and
      rest: "resolution_loop cfg sel lead prim parts st1 = Inr st'"
      by (subst (asm) resolution_loop.simps) (auto split: sum.splits)
    note ih = "1.IH" [OF True body rest]
    note b = loop_body_Inr [OF body]
    from True have lt: "int (ls_resolution_attempts st) < max_resolution_attempts cfg"
      by (simp add: loop_condition_def)
    from ih b lt show ?thesis by auto
  qed
qed

lemma make_decision_InrE:
  assumes "make_decision orch req = Inr r"
  obtains fw lead evs co b st where
    "lookup_framework (frameworks orch) (select_decision_framework (config orch) req) = Inr fw"
    "determine_lead_executive (select_relevant_executives orch req) = Inr lead"
    "gather_evaluations 1 (analyze lead req) (select_relevant_executives orch req) lead
       = Inr evs"
    "build_consensus (consensus_builder orch) (analyze lead req) evs
       (create_participation_records (select_relevant_executives orch req) lead) = Inr (co, b)"
    "resolution_loop (config orch) (select_relevant_executives orch req) lead
       (analyze lead req)
       (create_participation_records (select_relevant_executives orch req) lead)
       \<lparr>ls_consensus_outcome = co, ls_evaluations = evs, ls_builder = b,
        ls_resolution_attempts = 1\<rparr> = Inr st"
    "finish_decision orch req (select_relevant_executives orch req) fw lead st = Inr r"
  using assms unfolding make_decision_def Let_def
  by (auto split: sum.splits prod.splits)

lemma finish_decision_Inr:
  assumes "finish_decision orch req sel fw lead st = Inr (out, orch')"
  shows "consensus out = ls_consensus_outcome st"
    and "resolution_attempts out = ls_resolution_attempts st"
    and "consensus_builder orch' = ls_builder st"
    and "veto_applied (metrics out) \<longrightarrow> escalated_to_human out"
    and "veto_applied (metrics out)
         = (\<exists>v. check_for_vetos orch (ls_consensus_outcome st) (ls_evaluations st)
                  = Inr (Some v))"
  using assms unfolding finish_decision_def Let_def
  by (auto split: sum.splits)

text \<open>
  Claim C3.  With a configuration that allows at least one attempt, a completed decision
  run performs at least one and at most \<^verbatim>\<open>max_resolution_attempts\<close> consensus rounds:
  each round adds one outcome to the consensus builder's history.  The loop goes on only
  while its condition holds and stops as soon as the level is neither divided opinion nor
  strong disagreement or the counter has reached the maximum.
\<close>

theorem resolution_rounds_bounded:
  assumes "1 \<le> max_resolution_attempts (config orch)"
      and "make_decision orch request = Inr (out, orch')"
  shows "1 \<le> resolution_attempts out
       \<and> int (resolution_attempts out) \<le> max_resolution_attempts (config orch)
       \<and> length (decision_history (consensus_builder orch'))
          = length (decision_history (consensus_builder orch)) + resolution_attempts out
       \<and> (consensus_level (consensus out) \<notin> {DIVIDED_OPINION, STRONG_DISAGREEMENT}
           \<or> int (resolution_attempts out) = max_resolution_attempts (config orch))
       \<and> (\<forall>cfg st.
             loop_condition cfg st
             = (consensus_level (ls_consensus_outcome st)
                  \<in> {DIVIDED_OPINION, STRONG_DISAGREEMENT}
                \<and> int (ls_resolution_attempts st) < max_resolution_attempts cfg))
       \<and> (\<forall>cfg sel lead prim parts st.
             \<not> loop_condition cfg st \<longrightarrow> resolution_loop cfg sel lead prim parts st = Inr st)
       \<and> (\<forall>cfg sel lead prim parts st st'.
             resolution_loop cfg sel lead prim parts st = Inr st' \<longrightarrow>
               \<not> loop_condition cfg st')"
proof -
  from assms(2) obtain fw lead evs co b st where
    build: "build_consensus (consensus_builder orch) (analyze lead request) evs
       (create_participation_records (select_relevant_executives orch request) lead)
       = Inr (co, b)" and
    loop: "resolution_loop (config orch) (select_relevant_executives orch request) lead
       (analyze lead request)
       (create_participation_records (select_relevant_executives orch request) lead)
       \<lparr>ls_consensus_outcome = co, ls_evaluations = evs, ls_builder = b,
        ls_resolution_attempts = 1\<rparr> = Inr st" and
    fin: "finish_decision orch request (select_relevant_executives orch request) fw lead st
       = Inr (out, orch')"
    by (rule make_decision_InrE)
  note r = resolution_loop_result [OF loop]
  note f = finish_decision_Inr [OF fin]
  note h = build_consensus_history [OF build]
  from r have one: "1 \<le> ls_resolution_attempts st" by simp
  from r assms(1) have le: "int (ls_resolution_attempts st) \<le> max_resolution_attempts (config orch)"
    by simp
  from r h one have len: "length (decision_history (ls_builder st))
      = length (decision_history (consensus_builder orch)) + ls_resolution_attempts st"
    by simp
  from r have stop: "\<not> loop_condition (config orch) st" by simp
  have cond: "\<forall>cfg st.
             loop_condition cfg st
             = (consensus_level (ls_consensus_outcome st)
                  \<in> {DIVIDED_OPINION, STRONG_DISAGREEMENT}
                \<and> int (ls_resolution_attempts st) < max_resolution_attempts cfg)"
  proof (intro allI)
    fix cfg :: ExecutiveTeamConfig and st :: loop_state
    show "loop_condition cfg st
             = (consensus_level (ls_consensus_outcome st)
                  \<in> {DIVIDED_OPINION, STRONG_DISAGREEMENT}
                \<and> int (ls_resolution_attempts st) < max_resolution_attempts cfg)"
      by (cases "consensus_level (ls_consensus_outcome st)")
         (simp_all add: loop_condition_def)
  qed
  from stop cond le
  have exit: "consensus_level (ls_consensus_outcome st)
                \<notin> {DIVIDED_OPINION, STRONG_DISAGREEMENT}
           \<or> int (ls_resolution_attempts st) = max_resolution_attempts (config orch)"
    by auto
  have idle: "\<forall>cfg sel lead prim parts st.
             \<not> loop_condition cfg st \<longrightarrow> resolution_loop cfg sel lead prim parts st = Inr st"
    by (simp add: resolution_loop.simps)
  have stops: "\<forall>cfg sel lead prim parts st st'.
             resolution_loop cfg sel lead prim parts st = Inr st' \<longrightarrow>
               \<not> loop_condition cfg st'"
    using resolution_loop_result by blast
  from one le len exit cond idle stops f(1) f(2) f(3) show ?thesis
    by simp
qed

section \<open>Veto\<close>

lemma check_members_never_fails:
  "\<exists>r. check_members doms members evs = Inr r"
proof (induction doms members evs rule: check_members.induct)
  case (1 doms evs)
  then show ?case by simp
next
  case (2 doms nm member rest evs)
  then show ?case
    by (auto simp: Let_def list_ex_iff filter_empty_conv
        split: option.splits list.splits)
qed

lemma check_members_hit:
  assumes "is_active member" "d \<in> set doms" "d \<in> set (veto_rights member)"
      and "e \<in> set evs" "evaluator_id e = nm" "agreement_level e < 0.2"
  shows "\<exists>v. check_members doms ((nm, member) # rest) evs = Inr (Some v)"
proof -
  from assms(2,3) have ne: "filter (List.member (veto_rights member)) doms \<noteq> []"
    by (auto simp: filter_empty_conv)
  from assms(4-6) have fe: "find (\<lambda>evaluation. evaluator_id evaluation = nm
                                      \<and> agreement_level evaluation < 0.2) evs \<noteq> None"
    by (auto simp: find_None_iff)
  from assms(1-3) ne fe show ?thesis
    by (auto simp: Let_def list_ex_iff split: option.splits list.splits)
qed

lemma check_members_miss:
  assumes "\<not> (is_active member
        \<and> (\<exists>d \<in> set doms. d \<in> set (veto_rights member))
        \<and> (\<exists>e \<in> set evs. evaluator_id e = nm \<and> agreement_level e < 0.2))"
  shows "check_members doms ((nm, member) # rest) evs = check_members doms rest evs"
  using assms
  by (auto simp: Let_def list_ex_iff find_None_iff
      split: option.splits list.splits dest: find_Some_iff [THEN iffD1])

lemma check_members_fires:
  "(\<exists>v. check_members doms members evs = Inr (Some v)) =
     (\<exists>(nm, member) \<in> set members.
        is_active member
        \<and> (\<exists>d \<in> set doms. d \<in> set (veto_rights member))
        \<and> (\<exists>e \<in> set evs. evaluator_id e = nm \<and> agreement_level e < 0.2))"
proof (induction members)
  case Nil
  then show ?case by simp
next
  case (Cons m members)
  obtain nm member where m: "m = (nm, member)" by (cases m)
  show ?case
  proof (cases "is_active member
        \<and> (\<exists>d \<in> set doms. d \<in> set (veto_rights member))
        \<and> (\<exists>e \<in> set evs. evaluator_id e = nm \<and> agreement_level e < 0.2)")
    case True
    then have "\<exists>v. check_members doms ((nm, member) # members) evs = Inr (Some v)"
      by (blast intro: check_members_hit)
    with True m show ?thesis by auto
  next
    case False
    from check_members_miss [OF False]
    have "check_members doms (m # members) evs = check_members doms members evs"
      by (simp add: m)
    with False m Cons.IH show ?thesis by auto
  qed
qed

text \<open>
  Claim C2.  With veto enabled, the check fires exactly when some active executive has veto
  rights in a domain of the recommendation's domain-specific analyses and an evaluation
  of that executive has agreement below 0.2.  When it fires the decision outcome is
  escalated to a human, and the consensus level and the support percentage of the outcome
  are those computed before the check.
\<close>

theorem veto_fires_iff:
  assumes "enable_veto (config orch)"
  shows "(\<exists>r. check_for_vetos orch co evaluations = Inr r)
       \<and> (\<exists>v. check_for_vetos orch co evaluations = Inr (Some v))
         = (\<exists>(nm, member) \<in> set (executives orch).
              is_active member
              \<and> (\<exists>d \<in> set (map fst (domain_specific_analyses (recommendation co))).
                    d \<in> set (veto_rights member))
              \<and> (\<exists>e \<in> set evaluations. evaluator_id e = nm \<and> agreement_level e < 0.2))
       \<and> (\<forall>v. check_for_vetos orch (ls_consensus_outcome st) (ls_evaluations st)
                  = Inr (Some v) \<longrightarrow>
              (\<exists>out orch'.
                 finish_decision orch request selected fw lead st = Inr (out, orch')
                 \<and> escalated_to_human out
                 \<and> veto_applied (metrics out)
                 \<and> consensus_level (consensus out)
                     = consensus_level (ls_consensus_outcome st)
                 \<and> support_percentage (consensus out)
                     = support_percentage (ls_consensus_outcome st)))
       \<and> (\<forall>out orch'. make_decision orch request = Inr (out, orch') \<longrightarrow>
              veto_applied (metrics out) \<longrightarrow> escalated_to_human out)"
proof -
  have a: "\<exists>r. check_for_vetos orch co evaluations = Inr r"
    using check_members_never_fails by (simp add: check_for_vetos_def Let_def)
  have b: "(\<exists>v. check_for_vetos orch co evaluations = Inr (Some v))
         = (\<exists>(nm, member) \<in> set (executives orch).
              is_active member
              \<and> (\<exists>d \<in> set (map fst (domain_specific_analyses (recommendation co))).
                    d \<in> set (veto_rights member))
              \<and> (\<exists>e \<in> set evaluations. evaluator_id e = nm \<and> agreement_level e < 0.2))"
    using assms check_members_fires
      [of "map fst (domain_specific_analyses (recommendation co))" "executives orch" evaluations]
    by (simp add: check_for_vetos_def Let_def)
  have c: "\<forall>v. check_for_vetos orch (ls_consensus_outcome st) (ls_evaluations st)
                  = Inr (Some v) \<longrightarrow>
              (\<exists>out orch'.
                 finish_decision orch request selected fw lead st = Inr (out, orch')
                 \<and> escalated_to_human out
                 \<and> veto_applied (metrics out)
                 \<and> consensus_level (consensus out)
                     = consensus_level (ls_consensus_outcome st)
                 \<and> support_percentage (consensus out)
                     = support_percentage (ls_consensus_outcome st))"
    by (simp add: finish_decision_def Let_def)
  have d: "\<forall>out orch'. make_decision orch request = Inr (out, orch') \<longrightarrow>
              veto_applied (metrics out) \<longrightarrow> escalated_to_human out"
  proof (intro allI impI)
    fix out orch'
    assume run: "make_decision orch request = Inr (out, orch')"
       and v: "veto_applied (metrics out)"
    from run obtain fw lead st where
      "finish_decision orch request (select_relevant_executives orch request) fw lead st
         = Inr (out, orch')"
      by (rule make_decision_InrE)
    from finish_decision_Inr(4) [OF this] v show "escalated_to_human out" by simp
  qed
  from a b c d show ?thesis by blast
qed

section \<open>The lead executive\<close>

lemmas make_decision_defs =
  make_decision_def select_relevant_executives_def select_decision_framework_def
  lookup_framework_def determine_lead_executive_def get_executive_evaluation_def
  new_ConsensusEvaluation_def create_participation_records_def participation_record_def
  dict_get_def lower_def lower_char_def loop_condition_def loop_body_def
  finish_decision_def check_for_vetos_def

lemma get_executive_evaluation_id:
  "get_executive_evaluation rnd ex rec prio = Inr ev \<Longrightarrow> evaluator_id ev = name ex"
  by (auto simp: get_executive_evaluation_def new_ConsensusEvaluation_def Let_def
      split: if_splits)

lemma gather_evaluations_ids:
  "gather_evaluations rnd rec sel lead = Inr evs \<Longrightarrow>
     map evaluator_id evs
     = map (\<lambda>x. name (sel_executive x)) (filter (\<lambda>x. name (sel_executive x) \<noteq> name lead) sel)"
proof (induction sel arbitrary: evs)
  case Nil
  then show ?case by simp
next
  case (Cons x sel)
  show ?case
  proof (cases "name (sel_executive x) = name lead")
    case True
    with Cons show ?thesis by simp
  next
    case False
    with Cons.prems obtain ev evs' where
      ev: "get_executive_evaluation rnd (sel_executive x) rec (priority x) = Inr ev" and
      rest: "gather_evaluations rnd rec sel lead = Inr evs'" and
      evs: "evs = ev # evs'"
      by (auto split: sum.splits)
    from Cons.IH [OF rest] get_executive_evaluation_id [OF ev] False evs
    show ?thesis by simp
  qed
qed

lemma gather_evaluations_length:
  assumes "determine_lead_executive sel = Inr lead"
      and "gather_evaluations rnd rec sel lead = Inr evs"
  shows "length evs \<le> length sel - 1" and "\<forall>e \<in> set evs. evaluator_id e \<noteq> name lead"
proof -
  from assms(1) obtain x rest where sel: "sel = x # rest" and lead: "lead = sel_executive x"
    by (auto simp: determine_lead_executive_def split: list.splits)
  note ids = gather_evaluations_ids [OF assms(2)]
  have "length evs = length (map evaluator_id evs)" by simp
  also have "\<dots> = length (filter (\<lambda>x. name (sel_executive x) \<noteq> name lead) rest)"
    unfolding ids by (simp add: sel lead)
  also have "\<dots> \<le> length rest" by (rule length_filter_le)
  finally show "length evs \<le> length sel - 1" by (simp add: sel)
  have "set (map evaluator_id evs) \<subseteq> {n. n \<noteq> name lead}"
    unfolding ids by auto
  then show "\<forall>e \<in> set evs. evaluator_id e \<noteq> name lead" by auto
qed

lemma resolution_loop_evaluations:
  "resolution_loop cfg sel lead prim parts st = Inr st' \<Longrightarrow>
     determine_lead_executive sel = Inr lead \<Longrightarrow>
     length (ls_evaluations st) \<le> length sel - 1 \<Longrightarrow>
     length (ls_evaluations st') \<le> length sel - 1"
proof (induction cfg sel lead prim parts st rule: resolution_loop.induct)
  case (1 cfg sel lead prim parts st)
  show ?case
  proof (cases "loop_condition cfg st")
    case False
    with "1.prems" show ?thesis by (simp add: resolution_loop.simps)
  next
    case True
    with "1.prems"(1) obtain st1 where
      body: "loop_body sel lead prim parts st = Inr st1" and
      rest: "resolution_loop cfg sel lead prim parts st1 = Inr st'"
      by (subst (asm) resolution_loop.simps) (auto split: sum.splits)
    from gather_evaluations_length(1) [OF "1.prems"(2) loop_body_Inr(3) [OF body]]
    have "length (ls_evaluations st1) \<le> length sel - 1" .
    from "1.IH" [OF True body rest "1.prems"(2) this] show ?thesis .
  qed
qed

text \<open>
  Claim C10.  The lead executive gets a participation record as recommender and gives no
  evaluation: with \<open>n\<close> selected executives at most \<open>n - 1\<close> evaluations are
  gathered, in the first round and in every round of the loop, the participation rate is
  at most \<open>(n - 1) / n\<close>, and with one selected executive the evaluation set is empty
  and all support metrics are zero.
\<close>

theorem lead_never_evaluates:
  assumes "determine_lead_executive selected = Inr lead"
      and "gather_evaluations rnd rec selected lead = Inr evaluations"
  shows "(\<exists>p \<in> set (create_participation_records selected lead).
            executive_id p = name lead \<and> participation_type p = ''recommender'')
       \<and> length (create_participation_records selected lead) = length selected
       \<and> (\<forall>e \<in> set evaluations. evaluator_id e \<noteq> name lead)
       \<and> length evaluations \<le> length selected - 1
       \<and> participation_rate
            (calculate_support_metrics evaluations
               (create_participation_records selected lead))
          \<le> (real (length selected) - 1) / real (length selected)
       \<and> (length selected = 1 \<longrightarrow>
            evaluations = []
            \<and> calculate_support_metrics evaluations
                 (create_participation_records selected lead)
               = \<lparr>weighted_support = 0, unweighted_support = 0, participation_rate = 0,
                  strong_support = 0, moderate_support = 0, neutral = 0,
                  moderate_opposition = 0, strong_opposition = 0\<rparr>)
       \<and> (\<forall>cfg prim parts st st'.
            resolution_loop cfg selected lead prim parts st = Inr st' \<longrightarrow>
            length (ls_evaluations st) \<le> length selected - 1 \<longrightarrow>
            length (ls_evaluations st') \<le> length selected - 1)"
proof -
  from assms(1) obtain x rest where
    sel: "selected = x # rest" and lead: "lead = sel_executive x"
    by (auto simp: determine_lead_executive_def split: list.splits)
  have p: "\<exists>p \<in> set (create_participation_records selected lead).
            executive_id p = name lead \<and> participation_type p = ''recommender''"
    by (simp add: sel lead create_participation_records_def participation_record_def Let_def)
  have n: "length (create_participation_records selected lead) = length selected"
    by (simp add: create_participation_records_def)
  note g = gather_evaluations_length [OF assms]
  have pos: "0 < real (length selected)" by (simp add: sel)
  have rate: "participation_rate
            (calculate_support_metrics evaluations
               (create_participation_records selected lead))
          \<le> (real (length selected) - 1) / real (length selected)"
  proof (cases "evaluations = []")
    case True
    then show ?thesis by (simp add: calculate_support_metrics_def sel)
  next
    case False
    have "real (length evaluations) \<le> real (length selected) - 1"
      using g(1) by (simp add: sel)
    then have "real (length evaluations) / real (length selected)
        \<le> (real (length selected) - 1) / real (length selected)"
      using pos by (simp add: divide_right_mono)
    moreover have "selected \<noteq> []"
      by (simp add: sel)
    ultimately show ?thesis
      using False by (simp add: calculate_support_metrics_def Let_def n split: prod.splits)
  qed
  have single: "length selected = 1 \<longrightarrow>
            evaluations = []
            \<and> calculate_support_metrics evaluations
                 (create_participation_records selected lead)
               = \<lparr>weighted_support = 0, unweighted_support = 0, participation_rate = 0,
                  strong_support = 0, moderate_support = 0, neutral = 0,
                  moderate_opposition = 0, strong_opposition = 0\<rparr>"
    using g(1) by (auto simp: calculate_support_metrics_def)
  have loop: "\<forall>cfg prim parts st st'.
            resolution_loop cfg selected lead prim parts st = Inr st' \<longrightarrow>
            length (ls_evaluations st) \<le> length selected - 1 \<longrightarrow>
            length (ls_evaluations st') \<le> length selected - 1"
    using resolution_loop_evaluations assms(1) by blast
  from p n g rate single loop show ?thesis by blast
qed

section \<open>Concrete decision runs\<close>

text \<open>
  The two-member team with a reviewer at agreement 0.5: no conflicts, divided opinion,
  so the loop runs until the two allowed rounds are used.
\<close>

lemma example_run_A:
  "\<exists>out orch'.
     make_decision (example_team 0.5) example_request = Inr (out, orch')
     \<and> resolution_attempts out = 2
     \<and> consensus_level (consensus out) = DIVIDED_OPINION
     \<and> \<not> veto_applied (metrics out)
     \<and> \<not> escalated_to_human out"
  apply (simp add: make_decision_defs example_defs build_consensus_defs)
  apply (subst resolution_loop.simps)
  apply (simp add: make_decision_defs example_defs build_consensus_defs)
  apply (subst resolution_loop.simps)
  apply (simp add: make_decision_defs example_defs build_consensus_defs)
  done

text \<open>
  The three-member board: the risk executive at 0.1 and the finance executive at 1 are
  polarized and their roles disagree, structured debate lifts the estimated support to
  0.7, and the risk executive's veto applies.
\<close>

lemma example_run_B:
  "\<exists>out orch'.
     make_decision example_board example_request = Inr (out, orch')
     \<and> resolution_attempts out = 1
     \<and> veto_applied (metrics out)
     \<and> support_percentage (consensus out) = 0.7"
  apply (simp add: make_decision_defs example_defs example_board_def build_consensus_defs
      identify_role_conflicts_def group_by_role_def role_pair_conflict_def avg_agreement_def
      count_concerns_def select_resolution_method_def count_types_def
      apply_resolution_method_def estimate_new_support_def method_effectiveness_def)
  apply (subst resolution_loop.simps)
  apply (simp add: make_decision_defs example_defs build_consensus_defs)
  done

text \<open>Claim C3, at the two-member team: two rounds, the configured maximum.\<close>

theorem resolution_rounds_witness:
  "1 \<le> max_resolution_attempts (config (example_team 0.5))
   \<and> (\<exists>out orch'.
        make_decision (example_team 0.5) example_request = Inr (out, orch')
        \<and> resolution_attempts out = 2
        \<and> int (resolution_attempts out) \<le> max_resolution_attempts (config (example_team 0.5))
        \<and> length (decision_history (consensus_builder orch'))
           = length (decision_history (consensus_builder (example_team 0.5)))
             + resolution_attempts out
        \<and> consensus_level (consensus out) = DIVIDED_OPINION
        \<and> int (resolution_attempts out) = max_resolution_attempts (config (example_team 0.5)))"
proof -
  have cfg: "1 \<le> max_resolution_attempts (config (example_team 0.5))"
    by (simp add: example_defs)
  from example_run_A obtain out orch' where
    run: "make_decision (example_team 0.5) example_request = Inr (out, orch')" and
    two: "resolution_attempts out = 2" and
    lvl: "consensus_level (consensus out) = DIVIDED_OPINION"
    by blast
  note t = resolution_rounds_bounded [OF cfg run]
  from t lvl have "int (resolution_attempts out)
      = max_resolution_attempts (config (example_team 0.5))"
    by simp
  with cfg run two lvl t show ?thesis by blast
qed

text \<open>
  Claim C2, at the board: the veto fires and the decision is escalated although the
  support of 0.7 is above the escalation threshold.
\<close>

theorem veto_fires_witness:
  "enable_veto (config example_board)
   \<and> (\<exists>v. check_for_vetos example_board
             \<lparr>recommendation = example_recommendation example_request,
              consensus_level = STRONG_CONSENSUS, support_percentage = 0.95,
              supporting_executives = [], opposing_executives = [],
              abstaining_executives = [], key_conflicts = [],
              resolution_method = ''Direct consensus without conflict resolution'',
              modified_from_original = False, modification_summary = None\<rparr>
             [example_evaluation ''Risk Management Executive'' ''CRO'' 0.1,
              example_evaluation ''Finance Executive'' ''CFO'' 1]
           = Inr (Some v))
   \<and> (\<exists>out orch'.
        make_decision example_board example_request = Inr (out, orch')
        \<and> veto_applied (metrics out)
        \<and> escalated_to_human out
        \<and> \<not> support_percentage (consensus out)
              < human_escalation_threshold (config example_board))"
proof -
  let ?co = "\<lparr>recommendation = example_recommendation example_request,
              consensus_level = STRONG_CONSENSUS, support_percentage = 0.95,
              supporting_executives = [], opposing_executives = [],
              abstaining_executives = [], key_conflicts = [],
              resolution_method = ''Direct consensus without conflict resolution'',
              modified_from_original = False, modification_summary = None\<rparr>"
  let ?evs = "[example_evaluation ''Risk Management Executive'' ''CRO'' 0.1,
              example_evaluation ''Finance Executive'' ''CFO'' 1]"
  have cfg: "enable_veto (config example_board)"
    by (simp add: example_defs example_board_def)
  note t = veto_fires_iff [OF cfg, of ?co ?evs]
  have fires: "\<exists>v. check_for_vetos example_board ?co ?evs = Inr (Some v)"
    unfolding t [THEN conjunct2, THEN conjunct1]
    by (simp add: example_defs example_board_def)
  from example_run_B obtain out orch' where
    run: "make_decision example_board example_request = Inr (out, orch')" and
    v: "veto_applied (metrics out)" and
    s: "support_percentage (consensus out) = 0.7"
    by blast
  from veto_fires_iff [OF cfg, of ?co ?evs _ example_request]
  have "\<forall>out orch'. make_decision example_board example_request = Inr (out, orch') \<longrightarrow>
              veto_applied (metrics out) \<longrightarrow> escalated_to_human out"
    by blast
  with run v have e: "escalated_to_human out" by blast
  from s have "\<not> support_percentage (consensus out)
              < human_escalation_threshold (config example_board)"
    by (simp add: example_defs example_board_def)
  with cfg fires run v e show ?thesis by blast
qed

text \<open>
  Claim C10, at the two-member team (one evaluation, participation rate one half) and at
  a selection of the lead alone (no evaluation, all metrics zero).
\<close>

theorem lead_never_evaluates_witness:
  "determine_lead_executive (select_relevant_executives (example_team 0.5) example_request)
     = Inr (example_executive ''Strategy Executive'' ''CSO'' 1)
   \<and> gather_evaluations 1 (example_recommendation example_request)
       (select_relevant_executives (example_team 0.5) example_request)
       (example_executive ''Strategy Executive'' ''CSO'' 1)
     = Inr [example_evaluation ''Risk Management Executive'' ''CRO'' 0.5]
   \<and> length (select_relevant_executives (example_team 0.5) example_request) = 2
   \<and> length [example_evaluation ''Risk Management Executive'' ''CRO'' 0.5]
      \<le> length (select_relevant_executives (example_team 0.5) example_request) - 1
   \<and> participation_rate
        (calculate_support_metrics [example_evaluation ''Risk Management Executive'' ''CRO'' 0.5]
           (create_participation_records
              (select_relevant_executives (example_team 0.5) example_request)
              (example_executive ''Strategy Executive'' ''CSO'' 1)))
      \<le> 1 / 2
   \<and> gather_evaluations 1 (example_recommendation example_request)
       [\<lparr>sel_executive = example_executive ''Strategy Executive'' ''CSO'' 1, priority = 5\<rparr>]
       (example_executive ''Strategy Executive'' ''CSO'' 1) = Inr []
   \<and> calculate_support_metrics []
        (create_participation_records
           [\<lparr>sel_executive = example_executive ''Strategy Executive'' ''CSO'' 1, priority = 5\<rparr>]
           (example_executive ''Strategy Executive'' ''CSO'' 1))
      = \<lparr>weighted_support = 0, unweighted_support = 0, participation_rate = 0,
         strong_support = 0, moderate_support = 0, neutral = 0,
         moderate_opposition = 0, strong_opposition = 0\<rparr>"
proof -
  let ?sel = "select_relevant_executives (example_team 0.5) example_request"
  let ?lead = "example_executive ''Strategy Executive'' ''CSO'' 1"
  let ?evs = "[example_evaluation ''Risk Management Executive'' ''CRO'' 0.5]"
  let ?one = "[\<lparr>sel_executive = ?lead, priority = 5\<rparr>]"
  have lead: "determine_lead_executive ?sel = Inr ?lead"
    by (simp add: make_decision_defs example_defs)
  have g: "gather_evaluations 1 (example_recommendation example_request) ?sel ?lead = Inr ?evs"
    by (simp add: make_decision_defs example_defs in_unit_def)
  have n: "length ?sel = 2"
    by (simp add: make_decision_defs example_defs)
  note t = lead_never_evaluates [OF lead g]
  from t n have r: "participation_rate
        (calculate_support_metrics ?evs (create_participation_records ?sel ?lead)) \<le> 1 / 2"
    by simp
  have lead1: "determine_lead_executive ?one = Inr ?lead"
    by (simp add: determine_lead_executive_def)
  have g1: "gather_evaluations 1 (example_recommendation example_request) ?one ?lead = Inr []"
    by simp
  note t1 = lead_never_evaluates [OF lead1 g1]
  from t1 have z: "calculate_support_metrics [] (create_participation_records ?one ?lead)
      = \<lparr>weighted_support = 0, unweighted_support = 0, participation_rate = 0,
         strong_support = 0, moderate_support = 0, neutral = 0,
         moderate_opposition = 0, strong_opposition = 0\<rparr>"
    by simp
  from lead g n t r g1 z show ?thesis by blast
qed

end
